theory Spec2Isabelle
  imports Complex_Main "HOL-Library.Finite_Map"
begin

section \<open>JavaScript primitives used by the conversation service\<close>

text \<open>
  Strings are lists of 8-bit characters. The embedding treats characters above 127 as
  opaque: they are neither white space nor letters, and \<open>toLowerCase\<close> leaves them alone.
  A JavaScript \<open>number\<close> that comes out of \<open>parseInt\<close> is an integer or \<open>NaN\<close>; it is
  modelled as \<open>int option\<close> with \<open>None\<close> for \<open>NaN\<close> (exact below \<open>2^53\<close>).
\<close>

type_synonym number = "int option"

definition isDigit :: "char \<Rightarrow> bool" where
  "isDigit c \<longleftrightarrow> c \<in> set ''0123456789''"

definition isSpaceChar :: "char \<Rightarrow> bool" where
  "isSpaceChar c \<longleftrightarrow> c \<in> set [CHR 0x09, CHR 0x0A, CHR 0x0B, CHR 0x0C, CHR 0x0D, CHR 0x20]"

definition isHexDigit :: "char \<Rightarrow> bool" where
  "isHexDigit c \<longleftrightarrow> c \<in> set ''0123456789abcdefABCDEF''"

definition digitVal :: "char \<Rightarrow> int" where
  "digitVal c =
     (if isDigit c then int (of_char c) - 48
      else if c \<in> set ''abcdef'' then int (of_char c) - 87
      else int (of_char c) - 55)"

text \<open>
  \<open>parseInt(s)\<close> without a radix: leading white space is skipped, one sign is read, a
  \<open>0x\<close>/\<open>0X\<close> prefix selects base 16, and the longest prefix of digits is converted;
  no digit at all gives \<open>NaN\<close>.
\<close>

definition parseInt :: "string \<Rightarrow> number" where
  "parseInt s =
     (let t = dropWhile isSpaceChar s;
          neg = (take 1 t = ''-'');
          u = (if take 1 t = ''-'' \<or> take 1 t = ''+'' then drop 1 t else t);
          hex = (take 2 u = ''0x'' \<or> take 2 u = ''0X'');
          v = (if hex then drop 2 u else u);
          ds = takeWhile (if hex then isHexDigit else isDigit) v;
          n = foldl (\<lambda>a c. a * (if hex then 16 else 10) + digitVal c) 0 ds
      in if ds = [] then None else Some (if neg then - n else n))"

definition charAt :: "string \<Rightarrow> nat \<Rightarrow> string" where
  "charAt s i = (if i < length s then [s ! i] else [])"

definition nadd :: "number \<Rightarrow> number \<Rightarrow> number" where
  "nadd a b = (case (a, b) of (Some x, Some y) \<Rightarrow> Some (x + y) | _ \<Rightarrow> None)"

definition nmul :: "number \<Rightarrow> number \<Rightarrow> number" where
  "nmul a b = (case (a, b) of (Some x, Some y) \<Rightarrow> Some (x * y) | _ \<Rightarrow> None)"

definition jsRem :: "int \<Rightarrow> int \<Rightarrow> int" where
  \<comment> \<open>the \<open>%\<close> operator on integers: the result has the sign of the dividend\<close>
  "jsRem a b = sgn a * (\<bar>a\<bar> mod \<bar>b\<bar>)"

definition strictEq :: "number \<Rightarrow> number \<Rightarrow> bool" where
  \<comment> \<open>\<open>===\<close> on numbers: \<open>NaN\<close> equals nothing\<close>
  "strictEq a b \<longleftrightarrow> (case (a, b) of (Some x, Some y) \<Rightarrow> x = y | _ \<Rightarrow> False)"

section \<open>CPF validation\<close>

definition allEqualDigits :: "string \<Rightarrow> bool" where
  \<comment> \<open>the test \<open>/^(\d)\1{10}$/\<close>\<close>
  "allEqualDigits cpf \<longleftrightarrow>
     (case cpf of [] \<Rightarrow> False | c # r \<Rightarrow> isDigit c \<and> r = replicate 10 c)"

definition cpfSum :: "string \<Rightarrow> nat \<Rightarrow> int \<Rightarrow> number" where
  \<comment> \<open>\<open>sum = 0; for (i = 0; i < n; i++) sum += parseInt(cpf.charAt(i)) * (w - i)\<close>\<close>
  "cpfSum cpf n w =
     fold (\<lambda>i acc. nadd acc (nmul (parseInt (charAt cpf i)) (Some (w - int i)))) [0..<n] (Some 0)"

definition checkDigit :: "number \<Rightarrow> number" where
  \<comment> \<open>\<open>remainder = sum % 11; remainder < 2 ? 0 : 11 - remainder\<close>\<close>
  "checkDigit sm =
     (case sm of None \<Rightarrow> None
      | Some s \<Rightarrow> (let remainder = jsRem s 11 in Some (if remainder < 2 then 0 else 11 - remainder)))"

definition isValidCPF :: "string \<Rightarrow> bool" where
  "isValidCPF cpf \<longleftrightarrow>
     (if allEqualDigits cpf then False
      else let digit1 = checkDigit (cpfSum cpf 9 10);
               digit2 = checkDigit (cpfSum cpf 10 11)
           in strictEq digit1 (parseInt (charAt cpf 9)) \<and> strictEq digit2 (parseInt (charAt cpf 10)))"

definition lowerChar :: "char \<Rightarrow> char" where
  "lowerChar c =
     (case map_of (zip ''ABCDEFGHIJKLMNOPQRSTUVWXYZ'' ''abcdefghijklmnopqrstuvwxyz'') c of
        Some d \<Rightarrow> d
      | None \<Rightarrow> c)"

definition toLowerCase :: "string \<Rightarrow> string" where
  "toLowerCase s = map lowerChar s"

definition trim :: "string \<Rightarrow> string" where
  "trim s = rev (dropWhile isSpaceChar (rev (dropWhile isSpaceChar s)))"

fun includesStr :: "string \<Rightarrow> string \<Rightarrow> bool" where
  \<comment> \<open>\<open>s.includes(sub)\<close>\<close>
  "includesStr [] sub = (sub = [])"
| "includesStr (c # cs) sub = (take (length sub) (c # cs) = sub \<or> includesStr cs sub)"

definition onlyDigits :: "string \<Rightarrow> string" where
  \<comment> \<open>\<open>s.replace(/\D/g, '')\<close>\<close>
  "onlyDigits s = filter isDigit s"

section \<open>Session data\<close>

text \<open>
  The \<open>data\<close> bag of a session is an open JSON object. Objects are finite maps from keys
  to values; the values the service stores are strings, numbers, lists of catalog items
  and nested objects (\<open>clienteData\<close>, \<open>pacoteData\<close>).
\<close>

record item =
  item_id :: string
  nome :: string
  valor :: rat

datatype jv = JStr string | JNum rat | JItems "item list" | JObj "(string, jv) fmap"

type_synonym obj = "(string, jv) fmap"

fun truthy :: "jv option \<Rightarrow> bool" where
  "truthy None = False"
| "truthy (Some (JStr s)) = (s \<noteq> [])"
| "truthy (Some (JNum n)) = (n \<noteq> 0)"
| "truthy (Some (JItems xs)) = True"
| "truthy (Some (JObj m)) = True"

fun getProp :: "jv option \<Rightarrow> string \<Rightarrow> jv option" where
  \<comment> \<open>optional property access \<open>v?.k\<close>; only objects carry the keys the service reads\<close>
  "getProp (Some (JObj m)) k = fmlookup m k"
| "getProp _ k = None"

record session =
  phone :: string
  currentStep :: string
  lastMessage :: "string option"
  data :: "obj option"

definition dataProp :: "session \<Rightarrow> string \<Rightarrow> jv option" where
  \<comment> \<open>\<open>session.data?.k\<close>\<close>
  "dataProp s k = (case data s of None \<Rightarrow> None | Some d \<Rightarrow> fmlookup d k)"

definition spreadData :: "obj option \<Rightarrow> obj" where
  \<comment> \<open>\<open>{ ...d }\<close>, where spreading \<open>undefined\<close> adds nothing\<close>
  "spreadData d = (case d of None \<Rightarrow> fmempty | Some m \<Rightarrow> m)"

section \<open>Conversation steps and external collaborators\<close>

text \<open>
  The text of a reply is kept as a template name with the values it interpolates; the
  option list of a reply is kept as the list of its option ids.
\<close>

record aluno =
  nomeCompleto :: string
  aluno_turmaId :: string

record turma =
  turma_id :: string
  nomeTurma :: string

record configuracaoTurma =
  config_id :: string
  carneMaxParcelas :: int

datatype msg =
    MsgWelcome
  | MsgAskCpf
  | MsgAskBillingCpf
  | MsgSupportHandoff
  | MsgAttendant
  | MsgExistingClient aluno
  | MsgCpfOkAskClassCode
  | MsgCpfInvalid
  | MsgCpfWrongLength nat
  | MsgCpfDigitsOnly
  | MsgNewClass
  | MsgClientMenu
  | MsgChooseOption
  | MsgAskClassCode
  | MsgClassFound turma
  | MsgClassNotFound
  | MsgDataNotFound
  | MsgNoItems
  | MsgAskNumbers
  | MsgInvalidNumbers string nat
  | MsgPackageSummary "item list" rat
  | MsgBillingCpfInvalid
  | MsgCpfNotFound
  | MsgBillingSummary aluno
  | MsgChooseParcelas int
  | MsgParcelasInvalid
  | MsgCarneOk int
  | MsgPaymentError
  | MsgEditing
  | MsgAdmin
  | MsgQuote
  | MsgMeeting
  | MsgOther string

record convStep =
  step :: string
  message :: msg
  optionList :: "string list option"

datatype reply = Reply convStep | NoReply | Thrown

datatype carneResult = CarneThrows | CarneFail | CarneOk bool

record carneRequest =
  alunoId :: "jv option"
  req_valor :: jv
  parcelas :: int
  vencimentoPrimeiraParcela :: string

section \<open>The session store: durable table and cache\<close>

text \<open>
  \<open>prisma\<close> says that the durable table \<open>zapflow_sessions\<close> can be used (the client was
  created and its statements succeed); \<open>redis\<close> says that the cache is available. The
  durable table keeps the row it was given; the cache gives back the session it was
  given. The time stamps \<open>createdAt\<close> and \<open>updatedAt\<close> and the expiry of cache entries
  are left out. \<open>events\<close> records, in order, the writes to the message log, the calls of
  \<open>updateSession\<close>, the outbound sends and the calls of the payment backend.

  The column \<open>context\<close> of the table is of type \<open>jsonb\<close>, which the database client hands
  back as an object, and \<open>getOrCreateSession\<close> passes it to \<open>JSON.parse\<close>. \<open>JSON.parse\<close>
  parses the string form of its argument, which for an object is \<open>[object Object]\<close>, so
  it throws for every context that is not \<open>NULL\<close>; the handler of the failure goes on to
  the session made in memory, at step \<open>welcome\<close> and without data. A row is therefore read
  back only while its context is \<open>NULL\<close>.
\<close>

record dbRow =
  current_step :: string
  last_message :: string
  row_context :: "obj option"

datatype direction = Incoming | Outgoing

datatype event =
    LogWrite direction
  | SessionUpdate string
  | Send string convStep
  | GerarCarne carneRequest
  | Engine

record world =
  prisma :: bool
  redis :: bool
  db :: "string \<rightharpoonup> dbRow"
  cache :: "string \<rightharpoonup> session"
  redisKeys :: "string set"
  events :: "event list"

definition redis_getSession :: "world \<Rightarrow> string \<Rightarrow> session option" where
  "redis_getSession w ph = (if redis w then cache w ph else None)"

definition redis_setSession :: "world \<Rightarrow> string \<Rightarrow> session \<Rightarrow> world" where
  "redis_setSession w ph s = (if redis w then w\<lparr>cache := (cache w)(ph \<mapsto> s)\<rparr> else w)"

definition redis_deleteSession :: "world \<Rightarrow> string \<Rightarrow> world" where
  "redis_deleteSession w ph = (if redis w then w\<lparr>cache := (cache w)(ph := None)\<rparr> else w)"

definition fallbackSession :: "string \<Rightarrow> session" where
  "fallbackSession ph = \<lparr>phone = ph, currentStep = ''welcome'', lastMessage = None, data = None\<rparr>"

definition rowSession :: "string \<Rightarrow> dbRow \<Rightarrow> session option" where
  \<comment> \<open>the session built from a row, nothing when \<open>JSON.parse(session.context)\<close> throws\<close>
  "rowSession ph r =
     (case row_context r of
        None \<Rightarrow>
          Some \<lparr>phone = ph, currentStep = current_step r,
                lastMessage = (if last_message r = [] then None else Some (last_message r)),
                data = None\<rparr>
      | Some c \<Rightarrow> None)"

definition getOrCreateSession :: "world \<Rightarrow> string \<Rightarrow> session \<times> world" where
  "getOrCreateSession w ph =
     (case redis_getSession w ph of
        Some cachedSession \<Rightarrow> (cachedSession, w)
      | None \<Rightarrow>
          (let w1 = (if prisma w
                     then (case db w ph of
                             Some r \<Rightarrow> w
                           | None \<Rightarrow> w\<lparr>db := (db w)(ph \<mapsto>
                                \<lparr>current_step = ''welcome'', last_message = [], row_context = None\<rparr>)\<rparr>)
                     else w);
               fromTable = (if prisma w
                            then (case db w1 ph of Some r \<Rightarrow> rowSession ph r | None \<Rightarrow> None)
                            else None)
           in case fromTable of
                Some sessionContext \<Rightarrow> (sessionContext, redis_setSession w1 ph sessionContext)
              | None \<Rightarrow> (fallbackSession ph, redis_setSession w1 ph (fallbackSession ph))))"

definition updateSession :: "world \<Rightarrow> string \<Rightarrow> string \<Rightarrow> string \<Rightarrow> obj option \<Rightarrow> world" where
  "updateSession w0 ph stp msg dat =
     (let w = w0\<lparr>events := events w0 @ [SessionUpdate stp]\<rparr>;
          w1 = (if prisma w
                then w\<lparr>db := (db w)(ph \<mapsto> \<lparr>current_step = stp, last_message = msg, row_context = dat\<rparr>)\<rparr>
                else w)
      in if redis w1 then
           (let w2 = redis_deleteSession w1 ph;
                (existingSession, w3) = getOrCreateSession w2 ph;
                sessionContext =
                  \<lparr>phone = ph, currentStep = stp, lastMessage = Some msg,
                   data = (case dat of
                             Some d \<Rightarrow> Some (spreadData (data existingSession) ++\<^sub>f d)
                           | None \<Rightarrow> data existingSession)\<rparr>
            in redis_setSession w3 ph sessionContext)
         else w1)"

definition objectOr :: "jv option \<Rightarrow> jv" where
  \<comment> \<open>\<open>v || {}\<close>\<close>
  "objectOr v = (case v of None \<Rightarrow> JObj fmempty | Some x \<Rightarrow> if truthy v then x else JObj fmempty)"

definition assignKey :: "jv \<Rightarrow> string \<Rightarrow> jv \<Rightarrow> jv" where
  \<comment> \<open>\<open>o[key] = value\<close> as it is seen once the session is serialised: only an object
      keeps the property\<close>
  "assignKey o1 k v = (case o1 of JObj m \<Rightarrow> JObj (fmupd k v m) | other \<Rightarrow> other)"

definition updateClienteData :: "world \<Rightarrow> string \<Rightarrow> string \<Rightarrow> jv \<Rightarrow> world" where
  "updateClienteData w ph k v =
     (let (s, w1) = getOrCreateSession w ph;
          clienteData = assignKey (objectOr (dataProp s ''clienteData'')) k v
      in updateSession w1 ph (currentStep s) (case lastMessage s of None \<Rightarrow> [] | Some m \<Rightarrow> m)
           (Some (fmupd ''clienteData'' clienteData (spreadData (data s)))))"

definition updatePackageData :: "world \<Rightarrow> string \<Rightarrow> string \<Rightarrow> jv \<Rightarrow> world" where
  "updatePackageData w ph k v =
     (let (s, w1) = getOrCreateSession w ph;
          pacoteData = assignKey (objectOr (dataProp s ''pacoteData'')) k v
      in updateSession w1 ph (currentStep s) (case lastMessage s of None \<Rightarrow> [] | Some m \<Rightarrow> m)
           (Some (fmupd ''pacoteData'' pacoteData (spreadData (data s)))))"

datatype fieldWrite = ClienteField string jv | PackageField string jv

fun applyWrites :: "world \<Rightarrow> string \<Rightarrow> fieldWrite list \<Rightarrow> world" where
  \<comment> \<open>a sequence of calls of \<open>updateClienteData\<close> and \<open>updatePackageData\<close>\<close>
  "applyWrites w ph [] = w"
| "applyWrites w ph (ClienteField k v # ws) = applyWrites (updateClienteData w ph k v) ph ws"
| "applyWrites w ph (PackageField k v # ws) = applyWrites (updatePackageData w ph k v) ph ws"

definition logMessage :: "world \<Rightarrow> direction \<Rightarrow> world" where
  "logMessage w dir = (if prisma w then w\<lparr>events := events w @ [LogWrite dir]\<rparr> else w)"

section \<open>External collaborators\<close>

text \<open>
  The collaborators the service calls. The lookups of the partner backend and of its
  database catch their own failures and answer with nothing, so they are functions;
  \<open>gerarCarne\<close> may throw, may answer without success, or answers with a plan whose first
  installment can be read or not. \<open>otherSteps\<close> stands for the handlers of the steps
  that are not embedded below (the field-collection steps \<open>contract_name\<close> to
  \<open>contract_state\<close>, \<open>contract_confirmed\<close>, the legacy package steps,
  \<open>package_confirmation\<close> and \<open>payment_method\<close>). Each of them answers with a step, or
  throws, which is the answer \<open>None\<close>; none of them has a \<open>return null\<close> (the four of the
  service are the default of \<open>determineResponse\<close> and the ends of \<open>handleMainMenu\<close>,
  \<open>handleExistingClientMenu\<close> and \<open>handleBillingCpf\<close>). They read the session and the
  partner backend, and they write only through \<open>updateClienteData\<close> and
  \<open>updatePackageData\<close>: \<open>updateSession\<close> is called by these two, by \<open>handleClassCode\<close> and by
  \<open>processIncomingMessage\<close>, the message log by \<open>processIncomingMessage\<close> and
  \<open>sendResponse\<close>, and the messaging gateway by \<open>sendResponse\<close>. So a handler is given by
  its answer and the list of the fields it writes, in order, for the session and the
  state it starts from. \<open>nowMs\<close> is the clock, in
  milliseconds since the epoch. \<open>localTZA t isUTC\<close> is the offset of the local time of the
  host from universal time, in milliseconds, as the language standard has it: at the
  instant \<open>t\<close> when \<open>isUTC\<close> is true, and for the local time value \<open>t\<close> when it is false.
  The offset of a zone with daylight saving time depends on \<open>t\<close>.
\<close>

record env =
  checkCpfExists :: "string \<Rightarrow> aluno option"
  checkTurmaExists :: "string \<Rightarrow> turma option"
  db_getItensCustomizados :: "jv option \<Rightarrow> item list"
  db_getConfiguracaoTurma :: "jv option \<Rightarrow> configuracaoTurma option"
  gerarCarne :: "carneRequest \<Rightarrow> carneResult"
  zapiSend :: "string \<Rightarrow> convStep \<Rightarrow> bool"
  otherSteps :: "string \<Rightarrow> string \<Rightarrow> session \<Rightarrow> world \<Rightarrow> convStep option \<times> fieldWrite list"
  nowMs :: int
  localTZA :: "int \<Rightarrow> bool \<Rightarrow> int"

definition api_getItensCustomizados :: "jv option \<Rightarrow> item list" where
  \<comment> \<open>\<open>MettaApiService.getItensCustomizados\<close>: every path returns the empty list\<close>
  "api_getItensCustomizados turmaId = []"

section \<open>Printing numbers\<close>

fun showNat :: "nat \<Rightarrow> string" where
  "showNat n = (if n < 10 then [''0123456789'' ! n] else showNat (n div 10) @ [''0123456789'' ! (n mod 10)])"

declare showNat.simps [simp del]

definition showInt :: "int \<Rightarrow> string" where
  "showInt i = (if i < 0 then ''-'' @ showNat (nat (- i)) else showNat (nat i))"

fun joinWith :: "string \<Rightarrow> string list \<Rightarrow> string" where
  "joinWith sep [] = []"
| "joinWith sep [x] = x"
| "joinWith sep (x # y # ys) = x @ sep @ joinWith sep (y # ys)"

fun splitOn :: "char \<Rightarrow> string \<Rightarrow> string list" where
  "splitOn c [] = [[]]"
| "splitOn c (x # xs) =
     (if x = c then [] # splitOn c xs
      else (case splitOn c xs of [] \<Rightarrow> [[x]] | y # ys \<Rightarrow> (x # y) # ys))"

section \<open>The due date of the first installment\<close>

text \<open>
  The date functions of the language standard, on milliseconds since the epoch:
  \<open>Day\<close>, \<open>TimeWithinDay\<close>, \<open>DayFromYear\<close>, \<open>YearFromTime\<close>, \<open>MonthFromTime\<close>,
  \<open>DateFromTime\<close>, \<open>MakeDay\<close>, \<open>MakeDate\<close>, \<open>LocalTime\<close> and \<open>UTC\<close>. \<open>getDate\<close> and
  \<open>setDate\<close> work on the local time of the host, \<open>toISOString\<close> prints universal time.
\<close>

definition msPerDay :: int where
  "msPerDay = 86400000"

definition Day :: "int \<Rightarrow> int" where
  "Day t = t div msPerDay"

definition TimeWithinDay :: "int \<Rightarrow> int" where
  "TimeWithinDay t = t mod msPerDay"

definition DayFromYear :: "int \<Rightarrow> int" where
  "DayFromYear y = 365 * (y - 1970) + (y - 1969) div 4 - (y - 1901) div 100 + (y - 1601) div 400"

definition isLeapYear :: "int \<Rightarrow> bool" where
  "isLeapYear y \<longleftrightarrow> y mod 4 = 0 \<and> (y mod 100 \<noteq> 0 \<or> y mod 400 = 0)"

function yearUp :: "int \<Rightarrow> int \<Rightarrow> int" where
  "yearUp y d = (if DayFromYear (y + 1) \<le> d then yearUp (y + 1) d else y)"
  by pat_completeness auto
termination
proof (relation "measure (\<lambda>(y, d). nat (d - DayFromYear y))")
  show "wf (measure (\<lambda>(y, d). nat (d - DayFromYear y)))" by simp
next
  fix y d :: int
  assume le: "DayFromYear (y + 1) \<le> d"
  have a: "(y - 1969) div 4 \<le> (y - 1968) div 4" by (intro zdiv_mono1) simp_all
  have "(y - 1900) div 100 \<le> (y - 1901 + 100) div 100" by (intro zdiv_mono1) simp_all
  then have b: "(y - 1900) div 100 \<le> (y - 1901) div 100 + 1" by simp
  have c: "(y - 1601) div 400 \<le> (y - 1600) div 400" by (intro zdiv_mono1) simp_all
  have "DayFromYear y < DayFromYear (y + 1)" unfolding DayFromYear_def using a b c by simp
  with le show "((y + 1, d), (y, d)) \<in> measure (\<lambda>(y, d). nat (d - DayFromYear y))" by simp
qed

function yearDown :: "int \<Rightarrow> int \<Rightarrow> int" where
  "yearDown y d = (if d < DayFromYear y then yearDown (y - 1) d else y)"
  by pat_completeness auto
termination
proof (relation "measure (\<lambda>(y, d). nat (DayFromYear y - d))")
  show "wf (measure (\<lambda>(y, d). nat (DayFromYear y - d)))" by simp
next
  fix y d :: int
  assume lt: "d < DayFromYear y"
  have a: "(y - 1970) div 4 \<le> (y - 1969) div 4" by (intro zdiv_mono1) simp_all
  have "(y - 1901) div 100 \<le> (y - 1902 + 100) div 100" by (intro zdiv_mono1) simp_all
  then have b: "(y - 1901) div 100 \<le> (y - 1902) div 100 + 1" by simp
  have c: "(y - 1602) div 400 \<le> (y - 1601) div 400" by (intro zdiv_mono1) simp_all
  have "DayFromYear (y - 1) < DayFromYear y" unfolding DayFromYear_def using a b c by simp
  with lt show "((y - 1, d), (y, d)) \<in> measure (\<lambda>(y, d). nat (DayFromYear y - d))" by simp
qed

declare yearUp.simps [simp del] yearDown.simps [simp del]

definition yearOfDay :: "int \<Rightarrow> int" where
  \<comment> \<open>the largest year \<open>y\<close> with \<open>DayFromYear y \<le> d\<close>, found by walking from 1970\<close>
  "yearOfDay d = (if 0 \<le> d then yearUp 1970 d else yearDown 1969 d)"

definition YearFromTime :: "int \<Rightarrow> int" where
  "YearFromTime t = yearOfDay (Day t)"

definition DayWithinYear :: "int \<Rightarrow> int" where
  "DayWithinYear t = Day t - DayFromYear (YearFromTime t)"

definition monthStarts :: "bool \<Rightarrow> int list" where
  \<comment> \<open>the day within the year on which each month starts\<close>
  "monthStarts leap =
     (if leap then [0, 31, 60, 91, 121, 152, 182, 213, 244, 274, 305, 335]
      else [0, 31, 59, 90, 120, 151, 181, 212, 243, 273, 304, 334])"

definition monthOfDay :: "bool \<Rightarrow> int \<Rightarrow> nat" where
  "monthOfDay leap d = length (filter (\<lambda>s. s \<le> d) (monthStarts leap)) - 1"

definition MonthFromTime :: "int \<Rightarrow> nat" where
  "MonthFromTime t = monthOfDay (isLeapYear (YearFromTime t)) (DayWithinYear t)"

definition DateFromTime :: "int \<Rightarrow> int" where
  "DateFromTime t =
     DayWithinYear t - monthStarts (isLeapYear (YearFromTime t)) ! MonthFromTime t + 1"

definition MakeDay :: "int \<Rightarrow> nat \<Rightarrow> int \<Rightarrow> int" where
  \<comment> \<open>for a month in \<open>0..11\<close>: the day number of the first of the month, plus \<open>date - 1\<close>\<close>
  "MakeDay year month date = DayFromYear year + monthStarts (isLeapYear year) ! month + date - 1"

definition MakeDate :: "int \<Rightarrow> int \<Rightarrow> int" where
  "MakeDate day time = day * msPerDay + time"

definition LocalTime :: "env \<Rightarrow> int \<Rightarrow> int" where
  "LocalTime e t = t + localTZA e t True"

definition UTC :: "env \<Rightarrow> int \<Rightarrow> int" where
  "UTC e t = t - localTZA e t False"

definition setDate :: "env \<Rightarrow> int \<Rightarrow> int \<Rightarrow> int" where
  \<comment> \<open>\<open>d.setDate(date)\<close> on the time value \<open>t\<close>: the new time value\<close>
  "setDate e t date =
     (let lt = LocalTime e t;
          newDate = MakeDate (MakeDay (YearFromTime lt) (MonthFromTime lt) date) (TimeWithinDay lt)
      in UTC e newDate)"

definition getDate :: "env \<Rightarrow> int \<Rightarrow> int" where
  "getDate e t = DateFromTime (LocalTime e t)"

definition padZero :: "nat \<Rightarrow> string \<Rightarrow> string" where
  "padZero n s = replicate (n - length s) CHR ''0'' @ s"

definition isoDate :: "int \<Rightarrow> string" where
  \<comment> \<open>\<open>d.toISOString().split('T')[0]\<close> for a year from 0 to 9999\<close>
  "isoDate t =
     padZero 4 (showInt (YearFromTime t)) @ ''-'' @ padZero 2 (showNat (MonthFromTime t + 1))
       @ ''-'' @ padZero 2 (showInt (DateFromTime t))"

definition dataVencimento :: "env \<Rightarrow> int" where
  \<comment> \<open>the time value of \<open>dataVencimento\<close> after \<open>setDate(getDate() + 7)\<close>\<close>
  "dataVencimento e = setDate e (nowMs e) (getDate e (nowMs e) + 7)"

definition calcularVencimentoPadrao :: "env \<Rightarrow> string" where
  "calcularVencimentoPadrao e = isoDate (dataVencimento e)"
section \<open>The step handlers\<close>

definition getMainMenuOptions :: "string list" where
  "getMainMenuOptions = [''1'', ''2'', ''3'', ''4'', ''5'', ''6'', ''7'']"

definition getWelcomeStep :: convStep where
  "getWelcomeStep = \<lparr>step = ''main_menu'', message = MsgWelcome, optionList = Some getMainMenuOptions\<rparr>"

definition getSupportStep :: convStep where
  "getSupportStep = \<lparr>step = ''main_menu'', message = MsgSupportHandoff, optionList = Some getMainMenuOptions\<rparr>"

definition getBillingStep :: convStep where
  "getBillingStep = \<lparr>step = ''billing_cpf'', message = MsgAskBillingCpf, optionList = None\<rparr>"

definition getEditingStep :: convStep where
  "getEditingStep = \<lparr>step = ''main_menu'', message = MsgEditing, optionList = Some getMainMenuOptions\<rparr>"

definition getAdminStep :: convStep where
  "getAdminStep = \<lparr>step = ''main_menu'', message = MsgAdmin, optionList = Some getMainMenuOptions\<rparr>"

definition getQuoteStep :: convStep where
  "getQuoteStep = \<lparr>step = ''main_menu'', message = MsgQuote, optionList = Some getMainMenuOptions\<rparr>"

definition getMeetingStep :: convStep where
  "getMeetingStep = \<lparr>step = ''main_menu'', message = MsgMeeting, optionList = Some getMainMenuOptions\<rparr>"

definition handleMainMenu :: "string \<Rightarrow> reply" where
  "handleMainMenu msg =
     (let m = trim msg
      in if m = ''1'' \<or> m = ''contract'' then
           Reply \<lparr>step = ''contract_cpf'', message = MsgAskCpf, optionList = None\<rparr>
         else if m = ''2'' \<or> m = ''billing'' then
           Reply \<lparr>step = ''billing_cpf'', message = MsgAskBillingCpf, optionList = None\<rparr>
         else if m = ''3'' \<or> m = ''editing'' then Reply getSupportStep
         else if m = ''4'' \<or> m = ''admin'' then Reply getSupportStep
         else if m = ''5'' \<or> m = ''quote'' then Reply getSupportStep
         else if m = ''6'' \<or> m = ''meeting'' then Reply getSupportStep
         else if includesStr msg ''atendente'' \<or> includesStr msg ''suporte'' \<or> includesStr msg ''7''
                 \<or> msg = ''support'' then
           Reply \<lparr>step = ''support'', message = MsgAttendant, optionList = None\<rparr>
         else NoReply)"

definition handleContractCpf :: "env \<Rightarrow> world \<Rightarrow> string \<Rightarrow> string \<Rightarrow> reply \<times> world" where
  "handleContractCpf e w msg ph =
     (let cpfNumbers = onlyDigits msg
      in if length cpfNumbers = 11 then
           (if isValidCPF cpfNumbers then
              (let w1 = updateClienteData w ph ''cpf'' (JStr cpfNumbers)
               in case checkCpfExists e cpfNumbers of
                    Some alunoExistente \<Rightarrow>
                      (Reply \<lparr>step = ''existing_client_menu'', message = MsgExistingClient alunoExistente,
                              optionList = Some [''2'', ''7'', ''menu'']\<rparr>, w1)
                  | None \<Rightarrow>
                      (Reply \<lparr>step = ''contract_class_code'', message = MsgCpfOkAskClassCode,
                              optionList = None\<rparr>, w1))
            else (Reply \<lparr>step = ''contract_cpf'', message = MsgCpfInvalid, optionList = None\<rparr>, w))
         else if length cpfNumbers > 0 then
           (Reply \<lparr>step = ''contract_cpf'', message = MsgCpfWrongLength (length cpfNumbers),
                   optionList = None\<rparr>, w)
         else (Reply \<lparr>step = ''contract_cpf'', message = MsgCpfDigitsOnly, optionList = None\<rparr>, w))"

definition handleExistingClient :: "string \<Rightarrow> reply" where
  "handleExistingClient msg =
     (if msg = ''1'' then
        Reply \<lparr>step = ''contract_class_code'', message = MsgNewClass, optionList = None\<rparr>
      else if msg = ''2'' then
        Reply \<lparr>step = ''main_menu'', message = MsgClientMenu, optionList = Some getMainMenuOptions\<rparr>
      else
        Reply \<lparr>step = ''contract_existing_client'', message = MsgChooseOption,
               optionList = Some [''1'', ''2'']\<rparr>)"

definition handleExistingClientMenu :: "string \<Rightarrow> reply" where
  "handleExistingClientMenu msg =
     (let m = trim msg
      in if m = ''2'' \<or> m = ''billing'' then
           Reply \<lparr>step = ''billing_cpf'', message = MsgAskBillingCpf, optionList = None\<rparr>
         else if m = ''7'' then Reply getSupportStep
         else if m = ''menu'' then Reply getWelcomeStep
         else NoReply)"

definition tentativasOf :: "session \<Rightarrow> rat" where
  \<comment> \<open>\<open>session.data?.tentativasTurma || 0\<close>; the key holds a number whenever it is set\<close>
  "tentativasOf s = (case dataProp s ''tentativasTurma'' of Some (JNum n) \<Rightarrow> n | _ \<Rightarrow> 0)"

definition handleClassCode :: "env \<Rightarrow> world \<Rightarrow> string \<Rightarrow> string \<Rightarrow> reply \<times> world" where
  "handleClassCode e w msg ph =
     (let turmaId = trim msg
      in if turmaId = [] then
           (Reply \<lparr>step = ''contract_class_code'', message = MsgAskClassCode, optionList = None\<rparr>, w)
         else case checkTurmaExists e turmaId of
           Some turma \<Rightarrow>
             (let w1 = updateClienteData w ph ''turmaId'' (JStr (turma_id turma))
              in (Reply \<lparr>step = ''contract_name'', message = MsgClassFound turma, optionList = None\<rparr>, w1))
         | None \<Rightarrow>
             (let (s, w1) = getOrCreateSession w ph;
                  tentativas = tentativasOf s + 1;
                  w2 = updateSession w1 ph ''contract_class_code'' msg
                         (Some (fmupd ''tentativasTurma'' (JNum tentativas) (spreadData (data s))))
              in if tentativas \<ge> 3 then (Reply getSupportStep, w2)
                 else (Reply \<lparr>step = ''contract_class_code'', message = MsgClassNotFound,
                               optionList = None\<rparr>, w2)))"

definition parsePositions :: "string \<Rightarrow> int list" where
  \<comment> \<open>\<open>numerosStr.split(',').map(n => parseInt(n.trim())).filter(n => !isNaN(n))\<close>\<close>
  "parsePositions numerosStr =
     concat (map (\<lambda>n. case parseInt (trim n) of None \<Rightarrow> [] | Some k \<Rightarrow> [k]) (splitOn CHR '','' numerosStr))"

definition handlePackageSelection :: "env \<Rightarrow> world \<Rightarrow> string \<Rightarrow> string \<Rightarrow> reply \<times> world" where
  "handlePackageSelection e w msg ph =
     (let (s, w1) = getOrCreateSession w ph;
          clienteData = dataProp s ''clienteData'';
          pacoteData = dataProp s ''pacoteData''
      in if \<not> truthy clienteData \<or> \<not> truthy (getProp pacoteData ''configuracaoTurmaId'') then
           (Reply \<lparr>step = ''main_menu'', message = MsgDataNotFound, optionList = Some getMainMenuOptions\<rparr>, w1)
         else
           (let turmaId = getProp clienteData ''turmaId'';
                fromApi = api_getItensCustomizados turmaId;
                itensCustomizados =
                  (if fromApi = [] then db_getItensCustomizados e (getProp pacoteData ''configuracaoTurmaId'')
                   else fromApi)
            in if itensCustomizados = [] then
                 (Reply \<lparr>step = ''main_menu'', message = MsgNoItems, optionList = Some getMainMenuOptions\<rparr>, w1)
               else
                 (let numerosStr = filter (\<lambda>c. \<not> isSpaceChar c) msg;
                      numeros = parsePositions numerosStr
                  in if numeros = [] then
                       (Reply \<lparr>step = ''package_selection'', message = MsgAskNumbers, optionList = None\<rparr>, w1)
                     else
                       (let numerosInvalidos =
                              filter (\<lambda>n. n < 1 \<or> n > int (length itensCustomizados)) numeros
                        in if numerosInvalidos \<noteq> [] then
                             (Reply \<lparr>step = ''package_selection'',
                                     message = MsgInvalidNumbers (joinWith '', '' (map showInt numerosInvalidos))
                                                 (length itensCustomizados),
                                     optionList = None\<rparr>, w1)
                           else
                             (let itensSelecionados = map (\<lambda>n. itensCustomizados ! nat (n - 1)) numeros;
                                  valorTotal = foldl (\<lambda>total i. total + valor i) 0 itensSelecionados;
                                  w2 = updatePackageData w1 ph ''itensSelecionados'' (JItems itensSelecionados);
                                  w3 = updatePackageData w2 ph ''valorTotal'' (JNum valorTotal)
                              in (Reply \<lparr>step = ''package_confirmation'',
                                         message = MsgPackageSummary itensSelecionados valorTotal,
                                         optionList = Some [''sim'', ''nao'']\<rparr>, w3))))))"

definition handleBillingCpf :: "env \<Rightarrow> world \<Rightarrow> string \<Rightarrow> string \<Rightarrow> reply \<times> world" where
  "handleBillingCpf e w msg ph =
     (let (s, w1) = getOrCreateSession w ph
      in if currentStep s \<noteq> ''billing_cpf'' then (NoReply, w1)
         else
           (let cpfNumbers = onlyDigits msg
            in if length cpfNumbers \<noteq> 11 then
                 (let (session, w2) = getOrCreateSession w1 ph;
                      cpfCtx = getProp (dataProp session ''clienteData'') ''cpf''
                  in case (if truthy cpfCtx then cpfCtx else None) of
                       None \<Rightarrow>
                         (Reply \<lparr>step = ''billing_cpf'', message = MsgBillingCpfInvalid, optionList = None\<rparr>, w2)
                     | Some (JStr c) \<Rightarrow>
                         (if length (onlyDigits c) = 11 then
                            (case checkCpfExists e (onlyDigits c) of
                               None \<Rightarrow> (Reply \<lparr>step = ''main_menu'', message = MsgCpfNotFound,
                                                optionList = Some getMainMenuOptions\<rparr>, w2)
                             | Some aluno \<Rightarrow> (Reply \<lparr>step = ''main_menu'', message = MsgBillingSummary aluno,
                                                      optionList = Some getMainMenuOptions\<rparr>, w2))
                          else
                            (Reply \<lparr>step = ''billing_cpf'', message = MsgBillingCpfInvalid,
                                    optionList = None\<rparr>, w2))
                     | Some other \<Rightarrow> (Thrown, w2))
               else
                 (case checkCpfExists e cpfNumbers of
                    None \<Rightarrow> (Reply \<lparr>step = ''main_menu'', message = MsgCpfNotFound,
                                     optionList = Some getMainMenuOptions\<rparr>, w1)
                  | Some aluno \<Rightarrow> (Reply \<lparr>step = ''main_menu'', message = MsgBillingSummary aluno,
                                           optionList = Some getMainMenuOptions\<rparr>, w1))))"

definition paymentError :: convStep where
  "paymentError = \<lparr>step = ''main_menu'', message = MsgPaymentError, optionList = Some getMainMenuOptions\<rparr>"

definition isArrayOrFalsy :: "jv option \<Rightarrow> bool" where
  \<comment> \<open>\<open>(v || []).map(...)\<close> does not throw\<close>
  "isArrayOrFalsy v \<longleftrightarrow> \<not> truthy v \<or> (case v of Some (JItems xs) \<Rightarrow> True | _ \<Rightarrow> False)"

definition isNumberOrFalsy :: "jv option \<Rightarrow> bool" where
  \<comment> \<open>\<open>(v || 0).toFixed(2)\<close> does not throw\<close>
  "isNumberOrFalsy v \<longleftrightarrow> \<not> truthy v \<or> (case v of Some (JNum n) \<Rightarrow> True | _ \<Rightarrow> False)"

definition processPaymentCarne :: "env \<Rightarrow> world \<Rightarrow> string \<Rightarrow> int \<Rightarrow> reply \<times> world" where
  "processPaymentCarne e w ph n =
     (let (s, w1) = getOrCreateSession w ph;
          clienteData = dataProp s ''clienteData'';
          pacoteData = dataProp s ''pacoteData''
      in if \<not> truthy clienteData \<or> \<not> truthy pacoteData then (Reply paymentError, w1)
         else
           (let valorTotal = (if truthy (getProp pacoteData ''valorTotal'')
                              then case getProp pacoteData ''valorTotal'' of Some v \<Rightarrow> v | None \<Rightarrow> JNum 0
                              else JNum 0)
            in if \<not> isArrayOrFalsy (getProp pacoteData ''itensSelecionados'') then (Reply paymentError, w1)
               else
                 (let req = \<lparr>alunoId = getProp clienteData ''id'', req_valor = valorTotal, parcelas = n,
                             vencimentoPrimeiraParcela = calcularVencimentoPadrao e\<rparr>;
                      w2 = w1\<lparr>events := events w1 @ [GerarCarne req]\<rparr>
                  in case gerarCarne e req of
                       CarneOk True \<Rightarrow>
                         (if isNumberOrFalsy (getProp pacoteData ''valorTotal'')
                          then (Reply \<lparr>step = ''main_menu'', message = MsgCarneOk n,
                                       optionList = Some getMainMenuOptions\<rparr>, w2)
                          else (Reply paymentError, w2))
                     | _ \<Rightarrow> (Reply paymentError, w2))))"

definition isNaN :: "number \<Rightarrow> bool" where
  "isNaN x \<longleftrightarrow> x = None"

definition numLess :: "number \<Rightarrow> int \<Rightarrow> bool" where
  \<comment> \<open>\<open>x < k\<close>, false for \<open>NaN\<close>\<close>
  "numLess x k \<longleftrightarrow> (case x of None \<Rightarrow> False | Some n \<Rightarrow> n < k)"

definition parcelasOptions :: "int \<Rightarrow> string list" where
  \<comment> \<open>\<open>for (let i = 1; i <= carneMaxParcelas; i++) parcelasOptions.push({ id: i.toString(), ... })\<close>\<close>
  "parcelasOptions carneMax = map showInt [1..carneMax]"

definition showCarneParcelasOptions :: "configuracaoTurma \<Rightarrow> convStep" where
  "showCarneParcelasOptions configuracao =
     (let carneMax = (if carneMaxParcelas configuracao = 0 then 1 else carneMaxParcelas configuracao)
      in \<lparr>step = ''carne_parcelas'', message = MsgChooseParcelas carneMax,
          optionList = Some (parcelasOptions carneMax)\<rparr>)"

definition handleCarneParcelas :: "env \<Rightarrow> world \<Rightarrow> string \<Rightarrow> string \<Rightarrow> reply \<times> world" where
  "handleCarneParcelas e w msg ph =
     (let (s, w1) = getOrCreateSession w ph;
          clienteData = dataProp s ''clienteData'';
          pacoteData = dataProp s ''pacoteData''
      in if \<not> truthy clienteData \<or> \<not> truthy (getProp pacoteData ''configuracaoTurmaId'') then
           (Reply \<lparr>step = ''main_menu'', message = MsgDataNotFound, optionList = Some getMainMenuOptions\<rparr>, w1)
         else
           (let parcelas = parseInt msg
            in if isNaN parcelas \<or> numLess parcelas 1 then
                 (let (session, w2) = getOrCreateSession w1 ph;
                      clienteData2 = dataProp session ''clienteData'';
                      configuracao = (if truthy clienteData2
                                      then db_getConfiguracaoTurma e (getProp clienteData2 ''turmaId'')
                                      else None);
                      carneMax = (case configuracao of
                                    None \<Rightarrow> 6
                                  | Some c \<Rightarrow> if carneMaxParcelas c = 0 then 6 else carneMaxParcelas c)
                  in (Reply \<lparr>step = ''carne_parcelas'', message = MsgParcelasInvalid,
                             optionList = Some (parcelasOptions carneMax)\<rparr>, w2))
               else
                 (let n = (case parcelas of Some k \<Rightarrow> k | None \<Rightarrow> 0);
                      w2 = updatePackageData w1 ph ''parcelas'' (JNum (of_int n))
                  in processPaymentCarne e w2 ph n)))"

section \<open>One turn of the conversation\<close>

definition otherStepNames :: "string list" where
  "otherStepNames =
     [''contract_name'', ''contract_email'', ''contract_cep'', ''contract_address'',
      ''contract_neighborhood'', ''contract_city'', ''contract_state'', ''contract_confirmed'',
      ''package_album_size'', ''package_photo_quantity'', ''package_extras'',
      ''package_custom_items'', ''package_confirmation'', ''payment_method'']"

definition stepNames :: "string list" where
  \<comment> \<open>the steps that \<open>determineResponse\<close> has a case for\<close>
  "stepNames =
     [''welcome'', ''main_menu'', ''contract_cpf'', ''existing_client_menu'',
      ''contract_existing_client'', ''contract_class_code'', ''package_selection'', ''billing_cpf'',
      ''carne_parcelas'', ''contract'', ''billing'', ''editing'', ''admin'', ''quote'', ''meeting'',
      ''support''] @ otherStepNames"

definition determineResponse :: "env \<Rightarrow> world \<Rightarrow> session \<Rightarrow> string \<Rightarrow> reply \<times> world" where
  "determineResponse e w s msg =
     (let cur = currentStep s;
          messageLower = trim (toLowerCase msg)
      in if cur = ''welcome'' then (Reply getWelcomeStep, w)
         else if cur = ''main_menu'' then (handleMainMenu messageLower, w)
         else if cur = ''contract_cpf'' then handleContractCpf e w messageLower (phone s)
         else if cur = ''existing_client_menu'' then (handleExistingClientMenu messageLower, w)
         else if cur = ''contract_existing_client'' then (handleExistingClient messageLower, w)
         else if cur = ''contract_class_code'' then handleClassCode e w messageLower (phone s)
         else if cur = ''package_selection'' then handlePackageSelection e w messageLower (phone s)
         else if cur = ''billing_cpf'' then handleBillingCpf e w messageLower (phone s)
         else if cur = ''carne_parcelas'' then handleCarneParcelas e w messageLower (phone s)
         else if cur = ''contract'' then (Reply getWelcomeStep, w)
         else if cur = ''billing'' then (Reply getBillingStep, w)
         else if cur = ''editing'' then (Reply getEditingStep, w)
         else if cur = ''admin'' then (Reply getAdminStep, w)
         else if cur = ''quote'' then (Reply getQuoteStep, w)
         else if cur = ''meeting'' then (Reply getMeetingStep, w)
         else if cur = ''support'' then (Reply getSupportStep, w)
         else if cur \<in> set otherStepNames then
           (case otherSteps e cur messageLower s w of
              (Some r, writes) \<Rightarrow> (Reply r, applyWrites w (phone s) writes)
            | (None, writes) \<Rightarrow> (Thrown, applyWrites w (phone s) writes))
         else (NoReply, w))"

definition sendResponse :: "env \<Rightarrow> world \<Rightarrow> string \<Rightarrow> convStep \<Rightarrow> world" where
  "sendResponse e w ph response =
     (let w1 = w\<lparr>events := events w @ [Send ph response]\<rparr>
      in if zapiSend e ph response then logMessage w1 Outgoing else w1)"

text \<open>
  The webhook payload: \<open>pl_text\<close> is the \<open>message\<close> field of the \<open>text\<close> object,
  \<open>listResponseMessage\<close> the \<open>selectedRowId\<close> of the list response and
  \<open>buttonResponseMessage\<close> the \<open>buttonId\<close> of the button response, each absent when the
  object is absent; \<open>pl_message\<close> is the \<open>message\<close> string.
\<close>

record payload =
  pl_phone :: string
  pl_type :: string
  pl_message :: "string option"
  pl_text :: "string option"
  listResponseMessage :: "string option"
  buttonResponseMessage :: "string option"
  fromMe :: bool
  messageId :: "string option"

definition truthyStr :: "string option \<Rightarrow> bool" where
  "truthyStr v \<longleftrightarrow> (case v of None \<Rightarrow> False | Some s \<Rightarrow> s \<noteq> [])"

definition messageContentOf :: "payload \<Rightarrow> string" where
  "messageContentOf p =
     (case listResponseMessage p of
        Some selectedRowId \<Rightarrow> selectedRowId
      | None \<Rightarrow>
          (case buttonResponseMessage p of
             Some buttonId \<Rightarrow> buttonId
           | None \<Rightarrow>
               if truthyStr (pl_text p) then (case pl_text p of Some t \<Rightarrow> t | None \<Rightarrow> [])
               else if truthyStr (pl_message p) then (case pl_message p of Some m \<Rightarrow> m | None \<Rightarrow> [])
               else []))"

definition processIncomingMessage :: "env \<Rightarrow> world \<Rightarrow> payload \<Rightarrow> world" where
  "processIncomingMessage e w0 p =
     (let ph = pl_phone p;
          messageContent = messageContentOf p;
          w1 = logMessage (w0\<lparr>events := events w0 @ [Engine]\<rparr>) Incoming;
          (s, w2) = getOrCreateSession w1 ph;
          (response, w3) = determineResponse e w2 s messageContent
      in case response of
           Reply r \<Rightarrow>
             (let (currentSession, w4) = getOrCreateSession w3 ph;
                  w5 = updateSession w4 ph (step r) messageContent (data currentSession)
              in sendResponse e w5 ph r)
         | NoReply \<Rightarrow> w3
         | Thrown \<Rightarrow> w3)"

section \<open>Observations on the store\<close>

definition durableData :: "world \<Rightarrow> string \<Rightarrow> obj option" where
  \<comment> \<open>the context of the durable record of a phone\<close>
  "durableData w ph = (case db w ph of None \<Rightarrow> None | Some r \<Rightarrow> row_context r)"

definition cachedData :: "world \<Rightarrow> string \<Rightarrow> obj option" where
  \<comment> \<open>the data of the cached session of a phone\<close>
  "cachedData w ph = (case cache w ph of None \<Rightarrow> None | Some s \<Rightarrow> data s)"

definition readSession :: "world \<Rightarrow> string \<Rightarrow> session" where
  \<comment> \<open>the session a reader gets\<close>
  "readSession w ph = fst (getOrCreateSession w ph)"

definition newEvents :: "world \<Rightarrow> world \<Rightarrow> event list" where
  \<comment> \<open>the events recorded between two states\<close>
  "newEvents w w' = drop (length (events w)) (events w')"

definition emptyWorld :: "bool \<Rightarrow> bool \<Rightarrow> world" where
  \<comment> \<open>a service that has stored nothing yet, with the given availability of the
      durable table and of the cache\<close>
  "emptyWorld p r = \<lparr>prisma = p, redis = r, db = Map.empty, cache = Map.empty, redisKeys = {}, events = []\<rparr>"

definition worldAt :: "bool \<Rightarrow> bool \<Rightarrow> string \<Rightarrow> string \<Rightarrow> obj option \<Rightarrow> world" where
  \<comment> \<open>a service whose only stored session is the one of \<open>ph\<close>, at step \<open>st\<close> with data \<open>dat\<close>\<close>
  "worldAt p r ph st dat = (updateSession (emptyWorld p r) ph st [] dat)\<lparr>events := []\<rparr>"

definition textPayload :: "string \<Rightarrow> string \<Rightarrow> payload" where
  \<comment> \<open>a text message of a user, without a provider message id\<close>
  "textPayload ph m =
     \<lparr>pl_phone = ph, pl_type = ''text'', pl_message = None, pl_text = Some m,
      listResponseMessage = None, buttonResponseMessage = None, fromMe = False, messageId = None\<rparr>"

definition exampleItens :: "item list" where
  "exampleItens =
     [\<lparr>item_id = ''i1'', nome = ''Album'', valor = 10\<rparr>,
      \<lparr>item_id = ''i2'', nome = ''Fotos'', valor = 20\<rparr>,
      \<lparr>item_id = ''i3'', nome = ''Quadro'', valor = 30\<rparr>]"

definition exampleEnv :: env where
  \<comment> \<open>collaborators for the examples: no customer and no cohort is known, the catalog
      has three items, the cohort allows six installments, the payment backend and the
      messaging gateway succeed, the clock shows 2024-02-25 12:00 UTC and the host is
      three hours behind universal time all year\<close>
  "exampleEnv =
     \<lparr>checkCpfExists = (\<lambda>c. None),
      checkTurmaExists = (\<lambda>c. None),
      db_getItensCustomizados = (\<lambda>c. exampleItens),
      db_getConfiguracaoTurma = (\<lambda>t. Some \<lparr>config_id = ''cfg1'', carneMaxParcelas = 6\<rparr>),
      gerarCarne = (\<lambda>r. CarneOk True),
      zapiSend = (\<lambda>ph r. True),
      otherSteps = (\<lambda>st m s w. (None, [])),
      nowMs = 1708862400000,
      localTZA = (\<lambda>t isUTC. - 10800000)\<rparr>"

definition sendFailsEnv :: env where
  \<comment> \<open>as \<open>exampleEnv\<close>, with a messaging gateway that answers without success\<close>
  "sendFailsEnv = exampleEnv\<lparr>zapiSend := (\<lambda>ph r. False)\<rparr>"

definition eveningEnv :: env where
  \<comment> \<open>as \<open>exampleEnv\<close>, with the clock at 2024-02-26 01:00 UTC, which is 22:00 of
      2024-02-25 on the host\<close>
  "eveningEnv = exampleEnv\<lparr>nowMs := 1708909200000\<rparr>"

definition autumnEnv :: env where
  \<comment> \<open>a host in a zone four hours behind universal time until 2024-11-03 06:00 UTC and
      five hours behind from then on, with the clock at 2024-10-30 23:30 UTC, which is
      19:30 of the same day on the host\<close>
  "autumnEnv = exampleEnv
     \<lparr>nowMs := 1730331000000,
      localTZA := (\<lambda>t isUTC. if isUTC then (if t < 1730613600000 then - 14400000 else - 18000000)
                             else (if t < 1730599200000 then - 14400000 else - 18000000))\<rparr>"

definition exampleData :: obj where
  \<comment> \<open>the data of a session that has a customer and a cohort configuration\<close>
  "exampleData =
     fmupd ''clienteData'' (JObj (fmupd ''cpf'' (JStr ''11144477735'') (fmupd ''turmaId'' (JStr ''T1'')
        (fmupd ''id'' (JNum 7) fmempty))))
       (fmupd ''pacoteData'' (JObj (fmupd ''configuracaoTurmaId'' (JStr ''cfg1'') fmempty)) fmempty)"

definition textTurn :: "env \<Rightarrow> string \<Rightarrow> string \<Rightarrow> world \<Rightarrow> world" where
  \<comment> \<open>one turn of the engine on a text message\<close>
  "textTurn e ph c w = processIncomingMessage e w (textPayload ph c)"


definition classCodeOf :: "string \<Rightarrow> string" where
  \<comment> \<open>the cohort code that \<open>handleClassCode\<close> looks up for an inbound text: the text is
      lower-cased and trimmed by \<open>determineResponse\<close> and trimmed again by the handler\<close>
  "classCodeOf c = trim (trim (toLowerCase c))"

definition handlerStart :: "world \<Rightarrow> string \<Rightarrow> world" where
  \<comment> \<open>the state in which the step handler of a turn runs: the inbound message is logged
      and the session is loaded\<close>
  "handlerStart w ph = snd (getOrCreateSession (logMessage (w\<lparr>events := events w @ [Engine]\<rparr>) Incoming) ph)"

fun carneCalls :: "event list \<Rightarrow> carneRequest list" where
  \<comment> \<open>the requests sent to the payment backend for an installment plan\<close>
  "carneCalls [] = []"
| "carneCalls (GerarCarne r # es) = r # carneCalls es"
| "carneCalls (ev # es) = carneCalls es"

fun handlerEvent :: "event \<Rightarrow> bool" where
  \<comment> \<open>what a step handler records: session updates and calls of the payment backend\<close>
  "handlerEvent (SessionUpdate st) = True"
| "handlerEvent (GerarCarne r) = True"
| "handlerEvent ev = False"

fun sessionUpdates :: "event list \<Rightarrow> string list" where
  \<comment> \<open>the steps written by the calls of \<open>updateSession\<close>\<close>
  "sessionUpdates [] = []"
| "sessionUpdates (SessionUpdate st # es) = st # sessionUpdates es"
| "sessionUpdates (ev # es) = sessionUpdates es"

definition carneRequestOf :: "env \<Rightarrow> session \<Rightarrow> int \<Rightarrow> carneRequest" where
  \<comment> \<open>the request \<open>processPaymentCarne\<close> builds from a session and a number of installments\<close>
  "carneRequestOf e s n =
     \<lparr>alunoId = getProp (dataProp s ''clienteData'') ''id'',
      req_valor = (if truthy (getProp (dataProp s ''pacoteData'') ''valorTotal'')
                   then case getProp (dataProp s ''pacoteData'') ''valorTotal'' of
                          Some v \<Rightarrow> v | None \<Rightarrow> JNum 0
                   else JNum 0),
      parcelas = n,
      vencimentoPrimeiraParcela = calcularVencimentoPadrao e\<rparr>"

section \<open>The webhook controller\<close>

definition setIfNotExists :: "world \<Rightarrow> string \<Rightarrow> bool \<times> world" where
  \<comment> \<open>\<open>SET key value NX EX ttl\<close>; the expiry of the key is left out\<close>
  "setIfNotExists w k =
     (if \<not> redis w then (False, w)
      else if k \<in> redisKeys w then (False, w)
      else (True, w\<lparr>redisKeys := insert k (redisKeys w)\<rparr>))"

definition redis_delete :: "world \<Rightarrow> string \<Rightarrow> world" where
  "redis_delete w k = (if redis w then w\<lparr>redisKeys := redisKeys w - {k}\<rparr> else w)"

datatype httpResponse =
    BadRequest | IgnoredFromMe | Deduped | Debounced | Locked | Success

definition debounceContent :: "payload \<Rightarrow> string" where
  "debounceContent p =
     (if truthyStr (pl_message p) then (case pl_message p of Some m \<Rightarrow> m | None \<Rightarrow> [])
      else if truthyStr (pl_text p) then (case pl_text p of Some t \<Rightarrow> t | None \<Rightarrow> [])
      else if truthyStr (listResponseMessage p) then (case listResponseMessage p of Some r \<Rightarrow> r | None \<Rightarrow> [])
      else if truthyStr (buttonResponseMessage p) then (case buttonResponseMessage p of Some b \<Rightarrow> b | None \<Rightarrow> [])
      else [])"

definition isUserMessage :: "payload \<Rightarrow> bool" where
  "isUserMessage p \<longleftrightarrow>
     (pl_type p = ''text'' \<and> (truthyStr (pl_message p) \<or> pl_text p \<noteq> None))
     \<or> pl_type p = ''ReceivedCallback''
     \<or> listResponseMessage p \<noteq> None
     \<or> buttonResponseMessage p \<noteq> None"

text \<open>
  The controller always holds a cache service object, so the checks on its presence
  are true; the debounce key is the signature itself, its encoding being one to one.
\<close>

definition handleWebhook :: "env \<Rightarrow> world \<Rightarrow> payload \<Rightarrow> httpResponse \<times> world" where
  "handleWebhook e w p =
     (if pl_phone p = [] \<or> pl_type p = [] then (BadRequest, w)
      else if fromMe p then (IgnoredFromMe, w)
      else
        (let (fresh, w1) = (if truthyStr (messageId p)
                            then setIfNotExists w (''zapi:msg:'' @ (case messageId p of Some i \<Rightarrow> i | None \<Rightarrow> []))
                            else (True, w))
         in if \<not> fresh then (Deduped, w1)
            else
              (let sig = pl_phone p @ ''|'' @ pl_type p @ ''|'' @ debounceContent p;
                   (ok, w2) = setIfNotExists w1 (''zapi:debounce:'' @ sig)
               in if \<not> ok then (Debounced, w2)
                  else if isUserMessage p then
                    (let lockKey = ''zapi:lock:'' @ pl_phone p;
                         (locked, w3) = setIfNotExists w2 lockKey
                     in if \<not> locked then (Locked, w3)
                        else (Success, redis_delete (processIncomingMessage e w3 p) lockKey))
                  else (Success, w2))))"

section \<open>Properties of the CPF validator\<close>

lemma isDigit_cases:
  assumes "isDigit c"
  obtains "c = CHR ''0''" | "c = CHR ''1''" | "c = CHR ''2''" | "c = CHR ''3''" | "c = CHR ''4''"
    | "c = CHR ''5''" | "c = CHR ''6''" | "c = CHR ''7''" | "c = CHR ''8''" | "c = CHR ''9''"
  using assms unfolding isDigit_def by auto

lemma parseInt_digit: "isDigit c \<Longrightarrow> parseInt [c] = Some (digitVal c)"
  by (erule isDigit_cases) (simp_all add: isDigit_def parseInt_def isSpaceChar_def digitVal_def)

lemma digitVal_inj: "isDigit c \<Longrightarrow> isDigit d \<Longrightarrow> digitVal c = digitVal d \<Longrightarrow> c = d"
  by (erule isDigit_cases; erule isDigit_cases) (simp_all add: isDigit_def digitVal_def)

lemma cpfSum_cong:
  assumes "length a = length b" and "take n a = take n b"
  shows "cpfSum a n w = cpfSum b n w"
proof -
  have "charAt a i = charAt b i" if "i < n" for i
  proof -
    have "take n a ! i = take n b ! i" using assms(2) by simp
    with that have "a ! i = b ! i" by simp
    with assms(1) show ?thesis by (simp add: charAt_def)
  qed
  then show ?thesis
    unfolding cpfSum_def by (intro arg_cong[where f="\<lambda>f. fold f [0..<n] (Some 0)"] fold_cong) auto
qed

lemma strictEq_Some: "strictEq a (Some y) \<longleftrightarrow> a = Some y"
  by (cases a) (auto simp: strictEq_def)

lemma isValidCPF_digits:
  assumes "isValidCPF cpf" and "length cpf = 11" and "list_all isDigit cpf"
  shows "checkDigit (cpfSum cpf 9 10) = Some (digitVal (cpf ! 9))"
    and "checkDigit (cpfSum cpf 10 11) = Some (digitVal (cpf ! 10))"
proof -
  have d9: "isDigit (cpf ! 9)" and d10: "isDigit (cpf ! 10)"
    using assms(2,3) by (simp_all add: list_all_length)
  have "charAt cpf 9 = [cpf ! 9]" "charAt cpf 10 = [cpf ! 10]"
    using assms(2) by (simp_all add: charAt_def)
  with d9 d10 have p: "parseInt (charAt cpf 9) = Some (digitVal (cpf ! 9))"
    "parseInt (charAt cpf 10) = Some (digitVal (cpf ! 10))"
    by (simp_all add: parseInt_digit)
  from assms(1) show "checkDigit (cpfSum cpf 9 10) = Some (digitVal (cpf ! 9))"
    and "checkDigit (cpfSum cpf 10 11) = Some (digitVal (cpf ! 10))"
    by (simp_all add: isValidCPF_def Let_def p strictEq_Some split: if_splits)
qed

lemma altered_checksum_invalid:
  assumes v: "isValidCPF cpf" and l: "length cpf = 11" and d: "list_all isDigit cpf"
    and l': "length cpf' = 11" and d': "list_all isDigit cpf'"
    and pre: "take 9 cpf' = take 9 cpf"
    and alt: "cpf' ! 9 \<noteq> cpf ! 9 \<or> cpf' ! 10 \<noteq> cpf ! 10"
  shows "\<not> isValidCPF cpf'"
proof
  assume v': "isValidCPF cpf'"
  have dg: "isDigit (cpf ! 9)" "isDigit (cpf' ! 9)" "isDigit (cpf ! 10)" "isDigit (cpf' ! 10)"
    using l l' d d' by (simp_all add: list_all_length)
  have "cpfSum cpf' 9 10 = cpfSum cpf 9 10"
    using l l' pre by (intro cpfSum_cong) simp_all
  with isValidCPF_digits(1)[OF v l d] isValidCPF_digits(1)[OF v' l' d']
  have "digitVal (cpf' ! 9) = digitVal (cpf ! 9)" by simp
  with dg have e9: "cpf' ! 9 = cpf ! 9" by (simp add: digitVal_inj)
  have "take 10 cpf' = take 10 cpf"
  proof -
    have "take (Suc 9) cpf' = take 9 cpf' @ [cpf' ! 9]"
      using l' by (intro take_Suc_conv_app_nth) simp
    moreover have "take (Suc 9) cpf = take 9 cpf @ [cpf ! 9]"
      using l by (intro take_Suc_conv_app_nth) simp
    ultimately show ?thesis using pre e9 by simp
  qed
  then have "cpfSum cpf' 10 11 = cpfSum cpf 10 11"
    using l l' by (intro cpfSum_cong) simp_all
  with isValidCPF_digits(2)[OF v l d] isValidCPF_digits(2)[OF v' l' d']
  have "digitVal (cpf' ! 10) = digitVal (cpf ! 10)" by simp
  with dg have "cpf' ! 10 = cpf ! 10" by (simp add: digitVal_inj)
  with e9 alt show False by simp
qed

lemma repeated_digit_invalid: "isDigit c \<Longrightarrow> \<not> isValidCPF (replicate 11 c)"
  by (simp add: isValidCPF_def allEqualDigits_def eval_nat_numeral)

lemma known_cpf_valid: "isValidCPF ''11144477735''"
  by code_simp

text \<open>
  C6. \<open>isValidCPF\<close> rejects every string of eleven copies of one digit, accepts the CPF
  \<open>11144477735\<close>, and rejects every string of eleven digits that agrees with a valid CPF on
  the first nine digits and differs from it in the tenth or the eleventh digit (one
  of the two check digits, or both, altered).
\<close>

theorem isValidCPF_correct:
  "(isDigit c \<longrightarrow> \<not> isValidCPF (replicate 11 c))
   \<and> isValidCPF ''11144477735''
   \<and> (isValidCPF cpf \<and> length cpf = 11 \<and> list_all isDigit cpf
        \<and> length cpf' = 11 \<and> list_all isDigit cpf' \<and> take 9 cpf' = take 9 cpf
        \<and> (cpf' ! 9 \<noteq> cpf ! 9 \<or> cpf' ! 10 \<noteq> cpf ! 10)
      \<longrightarrow> \<not> isValidCPF cpf')"
  using repeated_digit_invalid known_cpf_valid altered_checksum_invalid by blast

theorem isValidCPF_correct_witness:
  "\<not> isValidCPF ''11111111111'' \<and> isValidCPF ''11144477735''
   \<and> \<not> isValidCPF ''11144477745'' \<and> \<not> isValidCPF ''11144477736''"
proof -
  have v: "isValidCPF ''11144477735''" by code_simp
  have a: "\<not> isValidCPF (replicate 11 CHR ''1'')"
    using isValidCPF_correct [of "CHR ''1''"] by (simp add: isDigit_def)
  have b: "\<not> isValidCPF ''11144477745''"
    using isValidCPF_correct [of _ "''11144477735''" "''11144477745''"] v
    by (simp add: isDigit_def)
  have c: "\<not> isValidCPF ''11144477736''"
    using isValidCPF_correct [of _ "''11144477735''" "''11144477736''"] v
    by (simp add: isDigit_def)
  from a have "\<not> isValidCPF ''11111111111''" by (simp add: eval_nat_numeral)
  with v b c show ?thesis by simp
qed

section \<open>Properties of the session store\<close>

lemmas store_defs =
  getOrCreateSession_def redis_getSession_def redis_setSession_def redis_deleteSession_def
  rowSession_def fallbackSession_def

lemma getOrCreateSession_frame:
  "prisma (snd (getOrCreateSession w ph)) = prisma w"
  "redis (snd (getOrCreateSession w ph)) = redis w"
  "events (snd (getOrCreateSession w ph)) = events w"
  "redisKeys (snd (getOrCreateSession w ph)) = redisKeys w"
  by (simp_all add: store_defs Let_def split: option.splits)

lemma getOrCreateSession_frame_pair:
  "getOrCreateSession w ph = (s, w1) \<Longrightarrow>
     prisma w1 = prisma w \<and> redis w1 = redis w \<and> events w1 = events w \<and> redisKeys w1 = redisKeys w"
  using getOrCreateSession_frame[of w ph] by simp

lemma getOrCreateSession_idem:
  "getOrCreateSession (snd (getOrCreateSession w ph)) ph
     = (fst (getOrCreateSession w ph), snd (getOrCreateSession w ph))"
proof (cases "redis_getSession w ph")
  case (Some s)
  then show ?thesis by (simp add: getOrCreateSession_def)
next
  case None
  show ?thesis
  proof (cases "db w ph")
    case n: None
    show ?thesis using None n
      by (cases "redis w"; cases "prisma w"; simp add: store_defs Let_def)
  next
    case (Some r)
    show ?thesis using None Some
      by (cases "redis w"; cases "prisma w"; cases "row_context r"; simp add: store_defs Let_def)
  qed
qed

lemma readSession_idem: "readSession (snd (getOrCreateSession w ph)) ph = readSession w ph"
  by (simp add: readSession_def getOrCreateSession_idem)


lemma readSession_no_cache: "\<not> redis w \<Longrightarrow> data (readSession w ph) = None"
  by (simp add: readSession_def store_defs Let_def split: option.splits)

lemma updateSession_frame:
  "prisma (updateSession w ph st m dat) = prisma w"
  "redis (updateSession w ph st m dat) = redis w"
  "events (updateSession w ph st m dat) = events w @ [SessionUpdate st]"
  "redisKeys (updateSession w ph st m dat) = redisKeys w"
  by (simp_all add: updateSession_def store_defs Let_def split: option.splits prod.splits)

lemma updateSession_durable:
  "prisma w \<Longrightarrow> durableData (updateSession w ph st m dat) ph = dat"
  by (cases "redis w"; cases dat)
     (simp_all add: updateSession_def durableData_def store_defs Let_def split: option.splits prod.splits)

lemma updateSession_cached:
  "redis w \<Longrightarrow> cachedData (updateSession w ph st m dat) ph = dat"
  by (cases "prisma w"; cases dat)
     (simp_all add: updateSession_def cachedData_def store_defs Let_def spreadData_def
        split: option.splits prod.splits)

lemma updateSession_read:
  assumes "redis w \<or> (prisma w \<and> dat = None)"
  shows "data (readSession (updateSession w ph st m dat) ph) = dat"
    and "currentStep (readSession (updateSession w ph st m dat) ph) = st"
    and "phone (readSession (updateSession w ph st m dat) ph) = ph"
  using assms
  by (cases "redis w"; cases "prisma w"; cases dat;
      simp add: updateSession_def readSession_def store_defs Let_def spreadData_def
        split: option.splits prod.splits)+

lemma updateSession_read_durable:
  "prisma w \<Longrightarrow> \<not> redis w \<Longrightarrow>
     readSession (updateSession w ph st m (Some d)) ph = fallbackSession ph"
  by (simp add: updateSession_def readSession_def store_defs Let_def)

lemma updateClienteData_frame:
  "prisma (updateClienteData w ph k v) = prisma w"
  "redis (updateClienteData w ph k v) = redis w"
proof -
  obtain s w1 where g: "getOrCreateSession w ph = (s, w1)" by (cases "getOrCreateSession w ph")
  show "prisma (updateClienteData w ph k v) = prisma w" "redis (updateClienteData w ph k v) = redis w"
    using getOrCreateSession_frame_pair[OF g]
    by (simp_all add: updateClienteData_def g updateSession_frame)
qed

lemma updatePackageData_frame:
  "prisma (updatePackageData w ph k v) = prisma w"
  "redis (updatePackageData w ph k v) = redis w"
proof -
  obtain s w1 where g: "getOrCreateSession w ph = (s, w1)" by (cases "getOrCreateSession w ph")
  show "prisma (updatePackageData w ph k v) = prisma w" "redis (updatePackageData w ph k v) = redis w"
    using getOrCreateSession_frame_pair[OF g]
    by (simp_all add: updatePackageData_def g updateSession_frame)
qed

lemma updateClienteData_events:
  "\<exists>st. events (updateClienteData w ph k v) = events w @ [SessionUpdate st]"
proof -
  obtain s w1 where g: "getOrCreateSession w ph = (s, w1)" by (cases "getOrCreateSession w ph")
  show ?thesis
    using getOrCreateSession_frame_pair[OF g]
    by (simp add: updateClienteData_def g updateSession_frame)
qed

lemma updatePackageData_events:
  "\<exists>st. events (updatePackageData w ph k v) = events w @ [SessionUpdate st]"
proof -
  obtain s w1 where g: "getOrCreateSession w ph = (s, w1)" by (cases "getOrCreateSession w ph")
  show ?thesis
    using getOrCreateSession_frame_pair[OF g]
    by (simp add: updatePackageData_def g updateSession_frame)
qed

lemma emptyWorld_simps [simp]:
  "prisma (emptyWorld p r) = p" "redis (emptyWorld p r) = r" "db (emptyWorld p r) = Map.empty"
  "cache (emptyWorld p r) = Map.empty" "redisKeys (emptyWorld p r) = {}" "events (emptyWorld p r) = []"
  by (simp_all add: emptyWorld_def)

lemma readSession_emptyWorld:
  "readSession (emptyWorld p r) ph = \<lparr>phone = ph, currentStep = ''welcome'', lastMessage = None, data = None\<rparr>"
  by (simp add: readSession_def store_defs Let_def)
section \<open>Merging of session data\<close>

lemma updateClienteData_no_cache:
  assumes p: "prisma w" and r: "\<not> redis w"
  shows "durableData (updateClienteData w ph k v) ph
           = Some (fmupd ''clienteData'' (JObj (fmupd k v fmempty)) fmempty)"
proof -
  obtain s w1 where g: "getOrCreateSession w ph = (s, w1)" by (cases "getOrCreateSession w ph")
  then have s: "s = readSession w ph" by (simp add: readSession_def)
  have d: "data s = None" unfolding s by (rule readSession_no_cache[OF r])
  have p1: "prisma w1" using getOrCreateSession_frame_pair[OF g] p by simp
  show ?thesis
    by (simp add: updateClienteData_def g d dataProp_def spreadData_def objectOr_def assignKey_def
          updateSession_durable[OF p1])
qed

text \<open>
  C1. What \<open>updateSession\<close> leaves in the stores. The statement on the durable table
  assigns \<open>context\<close>, and the session that the cache branch spreads the new data over is
  read after the cache entry was deleted and the row was overwritten, so it brings no
  earlier data: after two calls with data \<open>d1\<close> and then \<open>d2\<close>, the durable record, the
  cached session and (with the cache) the session read back hold \<open>d2\<close> alone, whatever
  keys \<open>d1\<close> had. With the durable table alone the written data is not read back at all,
  and a call of \<open>updateClienteData\<close> leaves a record that holds nothing but the one field
  it was called with.
\<close>

theorem session_data_replaced:
  "(prisma w \<longrightarrow>
      durableData (updateSession (updateSession w ph st1 m1 (Some d1)) ph st2 m2 (Some d2)) ph = Some d2)
   \<and> (redis w \<longrightarrow>
      cachedData (updateSession (updateSession w ph st1 m1 (Some d1)) ph st2 m2 (Some d2)) ph = Some d2
    \<and> data (readSession (updateSession (updateSession w ph st1 m1 (Some d1)) ph st2 m2 (Some d2)) ph)
        = Some d2)
   \<and> (prisma w \<and> \<not> redis w \<longrightarrow>
      data (readSession (updateSession w ph st1 m1 (Some d1)) ph) = None
    \<and> durableData (updateClienteData w ph k v) ph
        = Some (fmupd ''clienteData'' (JObj (fmupd k v fmempty)) fmempty))"
proof -
  let ?w1 = "updateSession w ph st1 m1 (Some d1)"
  have f: "prisma ?w1 = prisma w" "redis ?w1 = redis w" by (simp_all add: updateSession_frame)
  have a: "durableData (updateSession ?w1 ph st2 m2 (Some d2)) ph = Some d2" if "prisma w"
    using that by (simp add: updateSession_durable f)
  have b: "cachedData (updateSession ?w1 ph st2 m2 (Some d2)) ph = Some d2
         \<and> data (readSession (updateSession ?w1 ph st2 m2 (Some d2)) ph) = Some d2" if "redis w"
    using that by (simp add: updateSession_cached updateSession_read(1) f)
  have c: "data (readSession ?w1 ph) = None
         \<and> durableData (updateClienteData w ph k v) ph
             = Some (fmupd ''clienteData'' (JObj (fmupd k v fmempty)) fmempty)"
    if "prisma w \<and> \<not> redis w"
    using that by (simp add: readSession_no_cache f updateClienteData_no_cache)
  from a b c show ?thesis by blast
qed

theorem session_data_replaced_witness:
  "durableData
     (updateSession
        (updateSession (emptyWorld True True) ''5511999990000'' ''contract_cpf'' ''11144477735''
           (Some (fmupd ''clienteData'' (JObj (fmupd ''cpf'' (JStr ''11144477735'') fmempty)) fmempty)))
        ''5511999990000'' ''contract_class_code'' ''x1''
        (Some (fmupd ''tentativasTurma'' (JNum 1) fmempty)))
     ''5511999990000''
     = Some (fmupd ''tentativasTurma'' (JNum 1) fmempty)
   \<and> cachedData
     (updateSession
        (updateSession (emptyWorld True True) ''5511999990000'' ''contract_cpf'' ''11144477735''
           (Some (fmupd ''clienteData'' (JObj (fmupd ''cpf'' (JStr ''11144477735'') fmempty)) fmempty)))
        ''5511999990000'' ''contract_class_code'' ''x1''
        (Some (fmupd ''tentativasTurma'' (JNum 1) fmempty)))
     ''5511999990000''
     = Some (fmupd ''tentativasTurma'' (JNum 1) fmempty)
   \<and> fmlookup (fmupd ''tentativasTurma'' (JNum 1) fmempty) ''clienteData'' = None
   \<and> durableData
     (updateClienteData
        (updateClienteData (emptyWorld True False) ''5511999990000'' ''cpf'' (JStr ''11144477735''))
        ''5511999990000'' ''turmaId'' (JStr ''T1''))
     ''5511999990000''
     = Some (fmupd ''clienteData'' (JObj (fmupd ''turmaId'' (JStr ''T1'') fmempty)) fmempty)
   \<and> fmlookup (fmupd ''turmaId'' (JStr ''T1'') fmempty) ''cpf'' = None"
proof -
  let ?ph = "''5511999990000''"
  let ?w1 = "updateClienteData (emptyWorld True False) ?ph ''cpf'' (JStr ''11144477735'')"
  have f: "prisma ?w1" "\<not> redis ?w1" by (simp_all add: updateClienteData_frame)
  from session_data_replaced[of "emptyWorld True True" ?ph "''contract_cpf''"
      "''11144477735''" "fmupd ''clienteData'' (JObj (fmupd ''cpf'' (JStr ''11144477735'') fmempty)) fmempty"
      "''contract_class_code''" "''x1''" "fmupd ''tentativasTurma'' (JNum 1) fmempty"]
  have a: "durableData
     (updateSession
        (updateSession (emptyWorld True True) ?ph ''contract_cpf'' ''11144477735''
           (Some (fmupd ''clienteData'' (JObj (fmupd ''cpf'' (JStr ''11144477735'') fmempty)) fmempty)))
        ?ph ''contract_class_code'' ''x1'' (Some (fmupd ''tentativasTurma'' (JNum 1) fmempty))) ?ph
     = Some (fmupd ''tentativasTurma'' (JNum 1) fmempty)
   \<and> cachedData
     (updateSession
        (updateSession (emptyWorld True True) ?ph ''contract_cpf'' ''11144477735''
           (Some (fmupd ''clienteData'' (JObj (fmupd ''cpf'' (JStr ''11144477735'') fmempty)) fmempty)))
        ?ph ''contract_class_code'' ''x1'' (Some (fmupd ''tentativasTurma'' (JNum 1) fmempty))) ?ph
     = Some (fmupd ''tentativasTurma'' (JNum 1) fmempty)"
    by simp
  from session_data_replaced[of ?w1 ?ph _ _ _ _ _ _ "''turmaId''" "JStr ''T1''"] f
  have b: "durableData (updateClienteData ?w1 ?ph ''turmaId'' (JStr ''T1'')) ?ph
     = Some (fmupd ''clienteData'' (JObj (fmupd ''turmaId'' (JStr ''T1'') fmempty)) fmempty)"
    by simp
  from a b show ?thesis by simp
qed
section \<open>Properties of a turn\<close>

lemma getOrCreateSession_events_update:
  "getOrCreateSession (w\<lparr>events := es\<rparr>) ph
     = (fst (getOrCreateSession w ph), (snd (getOrCreateSession w ph))\<lparr>events := es\<rparr>)"
  by (simp add: store_defs Let_def split: option.splits)

lemma getOrCreateSession_logMessage:
  "getOrCreateSession (logMessage w dir) ph
     = (fst (getOrCreateSession w ph), logMessage (snd (getOrCreateSession w ph)) dir)"
  by (simp add: logMessage_def getOrCreateSession_events_update getOrCreateSession_frame)

lemma getOrCreateSession_db_unchanged:
  "currentStep (fst (getOrCreateSession w ph)) \<noteq> ''welcome'' \<Longrightarrow> db (snd (getOrCreateSession w ph)) = db w"
proof (cases "redis_getSession w ph")
  case (Some s)
  then show ?thesis by (simp add: getOrCreateSession_def)
next
  case None
  assume nw: "currentStep (fst (getOrCreateSession w ph)) \<noteq> ''welcome''"
  show ?thesis
  proof (cases "db w ph")
    case n: None
    show ?thesis using None n nw
      by (cases "redis w"; cases "prisma w"; simp add: store_defs Let_def)
  next
    case (Some r)
    show ?thesis using None Some
      by (cases "redis w"; cases "prisma w"; cases "row_context r"; simp add: store_defs Let_def)
  qed
qed

lemma readSession_events_update: "readSession (w\<lparr>events := es\<rparr>) ph = readSession w ph"
  by (simp add: readSession_def getOrCreateSession_events_update)

lemma worldAt_frame [simp]:
  "prisma (worldAt p r ph st dat) = p" "redis (worldAt p r ph st dat) = r"
  "events (worldAt p r ph st dat) = []"
  by (simp_all add: worldAt_def updateSession_frame)

lemma worldAt_read:
  assumes "r \<or> (p \<and> dat = None)"
  shows "currentStep (readSession (worldAt p r ph st dat) ph) = st"
    and "data (readSession (worldAt p r ph st dat) ph) = dat"
    and "phone (readSession (worldAt p r ph st dat) ph) = ph"
  using assms by (simp_all add: worldAt_def readSession_events_update updateSession_read)

lemma logMessage_frame [simp]:
  "prisma (logMessage w d) = prisma w" "redis (logMessage w d) = redis w"
  "db (logMessage w d) = db w" "cache (logMessage w d) = cache w"
  by (simp_all add: logMessage_def)

lemma readSession_logMessage [simp]: "readSession (logMessage w d) ph = readSession w ph"
  by (simp add: readSession_def getOrCreateSession_logMessage)

lemma sendResponse_frame [simp]:
  "prisma (sendResponse e w ph r) = prisma w" "redis (sendResponse e w ph r) = redis w"
  "db (sendResponse e w ph r) = db w" "cache (sendResponse e w ph r) = cache w"
  by (simp_all add: sendResponse_def Let_def)

lemma readSession_sendResponse [simp]: "readSession (sendResponse e w ph r) ph' = readSession w ph'"
  by (simp add: sendResponse_def Let_def readSession_events_update)

lemma sendResponse_events:
  "events (sendResponse e w ph r)
     = events w @ Send ph r # (if zapiSend e ph r \<and> prisma w then [LogWrite Outgoing] else [])"
  by (simp add: sendResponse_def Let_def logMessage_def)

lemma durableData_sendResponse [simp]: "durableData (sendResponse e w ph r) ph' = durableData w ph'"
  by (simp add: durableData_def)

lemma cachedData_sendResponse [simp]: "cachedData (sendResponse e w ph r) ph' = cachedData w ph'"
  by (simp add: cachedData_def)

text \<open>The state in which the step handler of a turn starts.\<close>

lemma turn_start:
  "getOrCreateSession (logMessage (w\<lparr>events := events w @ [Engine]\<rparr>) Incoming) ph
     = (readSession w ph,
        logMessage ((snd (getOrCreateSession w ph))\<lparr>events := events w @ [Engine]\<rparr>) Incoming)"
  by (simp add: getOrCreateSession_logMessage getOrCreateSession_events_update readSession_def)

lemma handlerStart_eq:
  "handlerStart w ph = logMessage ((snd (getOrCreateSession w ph))\<lparr>events := events w @ [Engine]\<rparr>) Incoming"
  by (simp add: handlerStart_def turn_start)

lemma handlerStart_frame:
  "prisma (handlerStart w ph) = prisma w" "redis (handlerStart w ph) = redis w"
  "readSession (handlerStart w ph) ph = readSession w ph"
  "events (handlerStart w ph) = events w @ Engine # (if prisma w then [LogWrite Incoming] else [])"
  by (simp_all add: handlerStart_eq getOrCreateSession_frame readSession_events_update readSession_idem
        logMessage_def)

lemma handlerStart_db:
  "currentStep (readSession w ph) \<noteq> ''welcome'' \<Longrightarrow> db (handlerStart w ph) = db w"
  by (simp add: handlerStart_eq getOrCreateSession_db_unchanged readSession_def)

lemma turn_reply:
  assumes d: "determineResponse e (handlerStart w (pl_phone p)) (readSession w (pl_phone p))
                (messageContentOf p) = (Reply r, w3)"
  shows "processIncomingMessage e w p
           = sendResponse e
               (updateSession (snd (getOrCreateSession w3 (pl_phone p))) (pl_phone p) (step r)
                  (messageContentOf p) (data (readSession w3 (pl_phone p))))
               (pl_phone p) r"
  using d unfolding handlerStart_eq
  by (simp add: processIncomingMessage_def Let_def turn_start readSession_def split: prod.splits)

lemma turn_reply_effects:
  assumes d: "determineResponse e (handlerStart w (pl_phone p)) (readSession w (pl_phone p))
                (messageContentOf p) = (Reply r, w3)"
  shows "events (processIncomingMessage e w p)
           = events w3 @ SessionUpdate (step r) # Send (pl_phone p) r
               # (if zapiSend e (pl_phone p) r \<and> prisma w3 then [LogWrite Outgoing] else [])"
    and "prisma w3 \<or> redis w3 \<Longrightarrow>
           data (readSession (processIncomingMessage e w p) (pl_phone p)) = data (readSession w3 (pl_phone p))"
    and "prisma w3 \<or> redis w3 \<Longrightarrow>
           currentStep (readSession (processIncomingMessage e w p) (pl_phone p)) = step r"
    and "prisma w3 \<or> redis w3 \<Longrightarrow>
           phone (readSession (processIncomingMessage e w p) (pl_phone p)) = pl_phone p"
    and "prisma (processIncomingMessage e w p) = prisma w3"
    and "redis (processIncomingMessage e w p) = redis w3"
proof -
  note r = turn_reply[OF d]
  let ?w4 = "snd (getOrCreateSession w3 (pl_phone p))"
  have fl: "prisma ?w4 = prisma w3" "redis ?w4 = redis w3" "events ?w4 = events w3"
    by (simp_all add: getOrCreateSession_frame)
  show "events (processIncomingMessage e w p)
           = events w3 @ SessionUpdate (step r) # Send (pl_phone p) r
               # (if zapiSend e (pl_phone p) r \<and> prisma w3 then [LogWrite Outgoing] else [])"
    by (simp add: r sendResponse_events updateSession_frame fl)
  show "prisma (processIncomingMessage e w p) = prisma w3" "redis (processIncomingMessage e w p) = redis w3"
    by (simp_all add: r updateSession_frame fl)
  assume up: "prisma w3 \<or> redis w3"
  have up4: "redis ?w4 \<or> (prisma ?w4 \<and> data (readSession w3 (pl_phone p)) = None)"
    using up readSession_no_cache[of w3 "pl_phone p"] by (auto simp: fl)
  show "data (readSession (processIncomingMessage e w p) (pl_phone p)) = data (readSession w3 (pl_phone p))"
    by (simp add: r updateSession_read(1)[OF up4])
  show "currentStep (readSession (processIncomingMessage e w p) (pl_phone p)) = step r"
    by (simp add: r updateSession_read(2)[OF up4])
  show "phone (readSession (processIncomingMessage e w p) (pl_phone p)) = pl_phone p"
    by (simp add: r updateSession_read(3)[OF up4])
qed

lemma turn_no_reply:
  assumes d: "determineResponse e (handlerStart w (pl_phone p)) (readSession w (pl_phone p))
                (messageContentOf p) = (rp, w3)"
    and n: "rp = NoReply \<or> rp = Thrown"
  shows "processIncomingMessage e w p = w3"
  using d n unfolding handlerStart_eq
  by (auto simp: processIncomingMessage_def Let_def turn_start split: prod.splits)

lemma newEvents_append: "events w' = events w @ es \<Longrightarrow> newEvents w w' = es"
  by (simp add: newEvents_def)

lemma textPayload_simps [simp]:
  "pl_phone (textPayload ph c) = ph"
  "messageContentOf (textPayload ph c) = c"
  by (simp_all add: textPayload_def messageContentOf_def truthyStr_def)
section \<open>The main menu\<close>

lemma handleMainMenu_contract:
  "handleMainMenu msg = Reply \<lparr>step = ''contract_cpf'', message = MsgAskCpf, optionList = None\<rparr>
     \<longleftrightarrow> trim msg = ''1'' \<or> trim msg = ''contract''"
  by (simp add: handleMainMenu_def Let_def getSupportStep_def)

lemma handleMainMenu_billing:
  "handleMainMenu msg = Reply \<lparr>step = ''billing_cpf'', message = MsgAskBillingCpf, optionList = None\<rparr>
     \<longleftrightarrow> trim msg = ''2'' \<or> trim msg = ''billing''"
  by (auto simp: handleMainMenu_def Let_def getSupportStep_def)

lemma handleMainMenu_handoff:
  "handleMainMenu msg = Reply getSupportStep
     \<longleftrightarrow> trim msg \<in> set [''3'', ''editing'', ''4'', ''admin'', ''5'', ''quote'', ''6'', ''meeting'']"
  by (auto simp: handleMainMenu_def Let_def getSupportStep_def)

lemma handleMainMenu_attendant:
  "handleMainMenu msg = Reply \<lparr>step = ''support'', message = MsgAttendant, optionList = None\<rparr>
     \<longleftrightarrow> trim msg \<notin> set [''1'', ''contract'', ''2'', ''billing'', ''3'', ''editing'', ''4'', ''admin'',
                          ''5'', ''quote'', ''6'', ''meeting'']
         \<and> (includesStr msg ''atendente'' \<or> includesStr msg ''suporte'' \<or> includesStr msg ''7''
              \<or> msg = ''support'')"
  by (auto simp: handleMainMenu_def Let_def getSupportStep_def)

lemma handleMainMenu_null:
  "handleMainMenu msg = NoReply
     \<longleftrightarrow> trim msg \<notin> set [''1'', ''contract'', ''2'', ''billing'', ''3'', ''editing'', ''4'', ''admin'',
                          ''5'', ''quote'', ''6'', ''meeting'']
         \<and> \<not> (includesStr msg ''atendente'' \<or> includesStr msg ''suporte'' \<or> includesStr msg ''7''
              \<or> msg = ''support'')"
  by (auto simp: handleMainMenu_def Let_def getSupportStep_def)

lemma handleMainMenu_examples:
  "handleMainMenu ''1'' = Reply \<lparr>step = ''contract_cpf'', message = MsgAskCpf, optionList = None\<rparr>"
  "handleMainMenu ''hello'' = NoReply"
  "handleMainMenu ''17'' = Reply \<lparr>step = ''support'', message = MsgAttendant, optionList = None\<rparr>"
  by (simp_all add: handleMainMenu_def trim_def isSpaceChar_def)

lemma main_menu_determine:
  assumes st: "currentStep (readSession w (pl_phone p)) = ''main_menu''"
  shows "determineResponse e (handlerStart w (pl_phone p)) (readSession w (pl_phone p)) (messageContentOf p)
           = (handleMainMenu (trim (toLowerCase (messageContentOf p))), handlerStart w (pl_phone p))"
  by (simp add: determineResponse_def Let_def st)

lemma main_menu_reply_turn:
  assumes st: "currentStep (readSession w (pl_phone p)) = ''main_menu''"
    and rp: "handleMainMenu (trim (toLowerCase (messageContentOf p))) = Reply r"
  shows "newEvents w (processIncomingMessage e w p)
           = Engine # (if prisma w then [LogWrite Incoming] else [])
               @ [SessionUpdate (step r), Send (pl_phone p) r]
               @ (if zapiSend e (pl_phone p) r \<and> prisma w then [LogWrite Outgoing] else [])"
    and "prisma w \<or> redis w \<Longrightarrow>
           currentStep (readSession (processIncomingMessage e w p) (pl_phone p)) = step r"
proof -
  have d: "determineResponse e (handlerStart w (pl_phone p)) (readSession w (pl_phone p)) (messageContentOf p)
             = (Reply r, handlerStart w (pl_phone p))"
    using main_menu_determine[OF st, of e] rp by simp
  note te = turn_reply_effects[OF d]
  show "newEvents w (processIncomingMessage e w p)
           = Engine # (if prisma w then [LogWrite Incoming] else [])
               @ [SessionUpdate (step r), Send (pl_phone p) r]
               @ (if zapiSend e (pl_phone p) r \<and> prisma w then [LogWrite Outgoing] else [])"
    by (simp add: newEvents_def te(1) handlerStart_frame)
  assume "prisma w \<or> redis w"
  then have "prisma (handlerStart w (pl_phone p)) \<or> redis (handlerStart w (pl_phone p))"
    by (simp add: handlerStart_frame)
  then show "currentStep (readSession (processIncomingMessage e w p) (pl_phone p)) = step r"
    by (rule te(3))
qed

lemma main_menu_null_turn:
  assumes st: "currentStep (readSession w (pl_phone p)) = ''main_menu''"
    and nr: "handleMainMenu (trim (toLowerCase (messageContentOf p))) = NoReply"
  shows "newEvents w (processIncomingMessage e w p) = Engine # (if prisma w then [LogWrite Incoming] else [])"
    and "db (processIncomingMessage e w p) = db w"
    and "readSession (processIncomingMessage e w p) (pl_phone p) = readSession w (pl_phone p)"
proof -
  have d: "determineResponse e (handlerStart w (pl_phone p)) (readSession w (pl_phone p)) (messageContentOf p)
             = (NoReply, handlerStart w (pl_phone p))"
    using main_menu_determine[OF st, of e] nr by simp
  have r: "processIncomingMessage e w p = handlerStart w (pl_phone p)"
    by (rule turn_no_reply[OF d]) simp
  show "newEvents w (processIncomingMessage e w p) = Engine # (if prisma w then [LogWrite Incoming] else [])"
    by (simp add: r newEvents_def handlerStart_frame)
  show "db (processIncomingMessage e w p) = db w"
    using st by (simp add: r handlerStart_db)
  show "readSession (processIncomingMessage e w p) (pl_phone p) = readSession w (pl_phone p)"
    by (simp add: r handlerStart_frame)
qed

text \<open>
  C3. What \<open>handleMainMenu\<close> does with every input, and what the turn does with its
  answer. The choices 1 to 6 are taken only when the trimmed input is exactly the digit
  or its keyword. Choice 7 is taken when the input contains \<open>atendente\<close>, \<open>suporte\<close> or the
  character \<open>7\<close> anywhere, or is \<open>support\<close>: input \<open>17\<close> goes to the \<open>support\<close> step. Every
  other input gives no transition. Input \<open>1\<close> goes to \<open>contract_cpf\<close> and input \<open>hello\<close>
  gives no transition. For a session at \<open>main_menu\<close>: when the handler answers with a
  step, the turn records the inbound message, one session update to that step, one send
  of the answer and its log entry, and the session is at that step afterwards; when the
  handler gives no transition, the turn records only the inbound message (no outbound
  send, no session update) and leaves the durable table and the session as read
  unchanged.
\<close>

theorem main_menu_matching:
  "(handleMainMenu msg = Reply \<lparr>step = ''contract_cpf'', message = MsgAskCpf, optionList = None\<rparr>
      \<longleftrightarrow> trim msg = ''1'' \<or> trim msg = ''contract'')
   \<and> (handleMainMenu msg = Reply \<lparr>step = ''billing_cpf'', message = MsgAskBillingCpf, optionList = None\<rparr>
      \<longleftrightarrow> trim msg = ''2'' \<or> trim msg = ''billing'')
   \<and> (handleMainMenu msg = Reply getSupportStep
      \<longleftrightarrow> trim msg \<in> set [''3'', ''editing'', ''4'', ''admin'', ''5'', ''quote'', ''6'', ''meeting''])
   \<and> (handleMainMenu msg = Reply \<lparr>step = ''support'', message = MsgAttendant, optionList = None\<rparr>
      \<longleftrightarrow> trim msg \<notin> set [''1'', ''contract'', ''2'', ''billing'', ''3'', ''editing'', ''4'', ''admin'',
                           ''5'', ''quote'', ''6'', ''meeting'']
          \<and> (includesStr msg ''atendente'' \<or> includesStr msg ''suporte'' \<or> includesStr msg ''7''
               \<or> msg = ''support''))
   \<and> (handleMainMenu msg = NoReply
      \<longleftrightarrow> trim msg \<notin> set [''1'', ''contract'', ''2'', ''billing'', ''3'', ''editing'', ''4'', ''admin'',
                           ''5'', ''quote'', ''6'', ''meeting'']
          \<and> \<not> (includesStr msg ''atendente'' \<or> includesStr msg ''suporte'' \<or> includesStr msg ''7''
               \<or> msg = ''support''))
   \<and> handleMainMenu ''1'' = Reply \<lparr>step = ''contract_cpf'', message = MsgAskCpf, optionList = None\<rparr>
   \<and> handleMainMenu ''hello'' = NoReply
   \<and> handleMainMenu ''17'' = Reply \<lparr>step = ''support'', message = MsgAttendant, optionList = None\<rparr>
   \<and> (currentStep (readSession w (pl_phone p)) = ''main_menu''
        \<and> handleMainMenu (trim (toLowerCase (messageContentOf p))) = Reply r
      \<longrightarrow> newEvents w (processIncomingMessage e w p)
            = Engine # (if prisma w then [LogWrite Incoming] else [])
                @ [SessionUpdate (step r), Send (pl_phone p) r]
                @ (if zapiSend e (pl_phone p) r \<and> prisma w then [LogWrite Outgoing] else [])
          \<and> (prisma w \<or> redis w \<longrightarrow>
                currentStep (readSession (processIncomingMessage e w p) (pl_phone p)) = step r))
   \<and> (currentStep (readSession w (pl_phone p)) = ''main_menu''
        \<and> handleMainMenu (trim (toLowerCase (messageContentOf p))) = NoReply
      \<longrightarrow> newEvents w (processIncomingMessage e w p)
            = Engine # (if prisma w then [LogWrite Incoming] else [])
          \<and> db (processIncomingMessage e w p) = db w
          \<and> readSession (processIncomingMessage e w p) (pl_phone p) = readSession w (pl_phone p))"
  using handleMainMenu_contract[of msg] handleMainMenu_billing[of msg] handleMainMenu_handoff[of msg]
    handleMainMenu_attendant[of msg] handleMainMenu_null[of msg] handleMainMenu_examples
    main_menu_reply_turn[of w p r e] main_menu_null_turn[of w p e]
  by blast

theorem main_menu_matching_witness:
  "newEvents (worldAt True True ''5511999990000'' ''main_menu'' None)
        (processIncomingMessage exampleEnv (worldAt True True ''5511999990000'' ''main_menu'' None)
           (textPayload ''5511999990000'' ''17''))
      = [Engine, LogWrite Incoming, SessionUpdate ''support'',
         Send ''5511999990000'' \<lparr>step = ''support'', message = MsgAttendant, optionList = None\<rparr>,
         LogWrite Outgoing]
   \<and> currentStep (readSession
        (processIncomingMessage exampleEnv (worldAt True True ''5511999990000'' ''main_menu'' None)
           (textPayload ''5511999990000'' ''17'')) ''5511999990000'') = ''support''
   \<and> newEvents (worldAt True True ''5511999990000'' ''main_menu'' None)
        (processIncomingMessage exampleEnv (worldAt True True ''5511999990000'' ''main_menu'' None)
           (textPayload ''5511999990000'' ''1''))
      = [Engine, LogWrite Incoming, SessionUpdate ''contract_cpf'',
         Send ''5511999990000'' \<lparr>step = ''contract_cpf'', message = MsgAskCpf, optionList = None\<rparr>,
         LogWrite Outgoing]
   \<and> currentStep (readSession
        (processIncomingMessage exampleEnv (worldAt True True ''5511999990000'' ''main_menu'' None)
           (textPayload ''5511999990000'' ''1'')) ''5511999990000'') = ''contract_cpf''
   \<and> newEvents (worldAt True True ''5511999990000'' ''main_menu'' None)
        (processIncomingMessage exampleEnv (worldAt True True ''5511999990000'' ''main_menu'' None)
           (textPayload ''5511999990000'' ''Hello''))
      = [Engine, LogWrite Incoming]
   \<and> readSession
        (processIncomingMessage exampleEnv (worldAt True True ''5511999990000'' ''main_menu'' None)
           (textPayload ''5511999990000'' ''Hello'')) ''5511999990000''
      = readSession (worldAt True True ''5511999990000'' ''main_menu'' None) ''5511999990000''"
proof -
  let ?ph = "''5511999990000''"
  let ?w = "worldAt True True ?ph ''main_menu'' None"
  let ?sup = "\<lparr>step = ''support'', message = MsgAttendant, optionList = None\<rparr>"
  let ?cpf = "\<lparr>step = ''contract_cpf'', message = MsgAskCpf, optionList = None\<rparr>"
  have st: "currentStep (readSession ?w ?ph) = ''main_menu''"
    by (simp add: worldAt_read)
  have lo: "trim (toLowerCase ''17'') = ''17''" "trim (toLowerCase ''1'') = ''1''"
    "trim (toLowerCase ''Hello'') = ''hello''"
    by (simp_all add: toLowerCase_def lowerChar_def trim_def isSpaceChar_def)
  have h: "handleMainMenu ''17'' = Reply ?sup" "handleMainMenu ''1'' = Reply ?cpf"
    "handleMainMenu ''hello'' = NoReply"
    by (simp_all add: handleMainMenu_def trim_def isSpaceChar_def)
  have z: "\<And>r. zapiSend exampleEnv ?ph r" by (simp add: exampleEnv_def)
  from main_menu_matching[of "''17''" ?w "textPayload ?ph ''17''" ?sup exampleEnv] st lo h z
  have a: "newEvents ?w (processIncomingMessage exampleEnv ?w (textPayload ?ph ''17''))
      = [Engine, LogWrite Incoming, SessionUpdate ''support'', Send ?ph ?sup, LogWrite Outgoing]
    \<and> currentStep (readSession (processIncomingMessage exampleEnv ?w (textPayload ?ph ''17'')) ?ph)
        = ''support''"
    by simp
  from main_menu_matching[of "''1''" ?w "textPayload ?ph ''1''" ?cpf exampleEnv] st lo h z
  have b: "newEvents ?w (processIncomingMessage exampleEnv ?w (textPayload ?ph ''1''))
      = [Engine, LogWrite Incoming, SessionUpdate ''contract_cpf'', Send ?ph ?cpf, LogWrite Outgoing]
    \<and> currentStep (readSession (processIncomingMessage exampleEnv ?w (textPayload ?ph ''1'')) ?ph)
        = ''contract_cpf''"
    by simp
  from main_menu_matching[of "''hello''" ?w "textPayload ?ph ''Hello''" ?cpf exampleEnv] st lo h
  have c: "newEvents ?w (processIncomingMessage exampleEnv ?w (textPayload ?ph ''Hello''))
      = [Engine, LogWrite Incoming]
    \<and> readSession (processIncomingMessage exampleEnv ?w (textPayload ?ph ''Hello'')) ?ph
        = readSession ?w ?ph"
    by simp
  from a b c show ?thesis by simp
qed
section \<open>Retries of the cohort code\<close>

lemma tentativasOf_stored:
  "data s = Some (fmupd ''tentativasTurma'' (JNum t) d) \<Longrightarrow> tentativasOf s = t"
  by (simp add: tentativasOf_def dataProp_def)


lemma handleClassCode_fail:
  fixes w :: world and e :: env and msg ph :: string
  defines "t \<equiv> tentativasOf (readSession w ph) + 1"
  assumes ne: "trim msg \<noteq> []"
    and nf: "checkTurmaExists e (trim msg) = None"
  shows "fst (handleClassCode e w msg ph)
           = Reply (if t \<ge> 3 then getSupportStep
                    else \<lparr>step = ''contract_class_code'', message = MsgClassNotFound, optionList = None\<rparr>)"
    and "redis w \<Longrightarrow> tentativasOf (readSession (snd (handleClassCode e w msg ph)) ph) = t"
    and "events (snd (handleClassCode e w msg ph)) = events w @ [SessionUpdate ''contract_class_code'']"
    and "prisma (snd (handleClassCode e w msg ph)) = prisma w"
    and "redis (snd (handleClassCode e w msg ph)) = redis w"
proof -
  obtain s w1 where g: "getOrCreateSession w ph = (s, w1)" by (cases "getOrCreateSession w ph")
  then have s: "s = readSession w ph" by (simp add: readSession_def)
  have fl: "prisma w1 = prisma w" "redis w1 = redis w" "events w1 = events w"
    using getOrCreateSession_frame_pair[OF g] by simp_all
  let ?w2 = "updateSession w1 ph ''contract_class_code'' msg
               (Some (fmupd ''tentativasTurma'' (JNum t) (spreadData (data s))))"
  have h: "handleClassCode e w msg ph
      = (Reply (if t \<ge> 3 then getSupportStep
                else \<lparr>step = ''contract_class_code'', message = MsgClassNotFound, optionList = None\<rparr>), ?w2)"
    by (simp add: handleClassCode_def Let_def ne nf g t_def s)
  show "fst (handleClassCode e w msg ph)
           = Reply (if t \<ge> 3 then getSupportStep
                    else \<lparr>step = ''contract_class_code'', message = MsgClassNotFound, optionList = None\<rparr>)"
    by (simp add: h)
  show "events (snd (handleClassCode e w msg ph)) = events w @ [SessionUpdate ''contract_class_code'']"
    by (simp add: h updateSession_frame fl)
  show "prisma (snd (handleClassCode e w msg ph)) = prisma w"
    "redis (snd (handleClassCode e w msg ph)) = redis w"
    by (simp_all add: h updateSession_frame fl)
  assume "redis w"
  then have up1: "redis w1 \<or> (prisma w1 \<and>
      Some (fmupd ''tentativasTurma'' (JNum t) (spreadData (data s))) = None)"
    by (simp add: fl)
  show "tentativasOf (readSession (snd (handleClassCode e w msg ph)) ph) = t"
    by (simp add: h tentativasOf_stored[OF updateSession_read(1)[OF up1]])
qed

lemma class_code_determine:
  fixes w :: world and e :: env and c ph :: string
  defines "r \<equiv> (if tentativasOf (readSession w ph) + 1 \<ge> 3 then getSupportStep
                 else \<lparr>step = ''contract_class_code'', message = MsgClassNotFound, optionList = None\<rparr>)"
  assumes st: "currentStep (readSession w ph) = ''contract_class_code''"
    and phn: "phone (readSession w ph) = ph"
    and ne: "classCodeOf c \<noteq> []"
    and nf: "checkTurmaExists e (classCodeOf c) = None"
  shows "determineResponse e (handlerStart w ph) (readSession w ph) c
           = (Reply r, snd (handleClassCode e (handlerStart w ph) (trim (toLowerCase c)) ph))"
proof -
  have ne': "trim (trim (toLowerCase c)) \<noteq> []"
    and nf': "checkTurmaExists e (trim (trim (toLowerCase c))) = None"
    using ne nf by (simp_all add: classCodeOf_def)
  note hc = handleClassCode_fail[OF ne' nf', of "handlerStart w ph" ph, unfolded handlerStart_frame]
  show ?thesis
    using hc(1) by (simp add: determineResponse_def Let_def st phn r_def prod_eq_iff)
qed

lemma class_code_fail_turn:
  fixes w :: world and e :: env and c ph :: string
  defines "t \<equiv> tentativasOf (readSession w ph) + 1"
  defines "r \<equiv> (if t \<ge> 3 then getSupportStep
                 else \<lparr>step = ''contract_class_code'', message = MsgClassNotFound, optionList = None\<rparr>)"
  assumes st: "currentStep (readSession w ph) = ''contract_class_code''"
    and phn: "phone (readSession w ph) = ph"
    and ne: "classCodeOf c \<noteq> []"
    and nf: "checkTurmaExists e (classCodeOf c) = None"
  shows "events (textTurn e ph c w)
           = events w @ Engine # (if prisma w then [LogWrite Incoming] else [])
               @ [SessionUpdate ''contract_class_code'', SessionUpdate (step r), Send ph r]
               @ (if zapiSend e ph r \<and> prisma w then [LogWrite Outgoing] else [])"
    and "redis w \<Longrightarrow> tentativasOf (readSession (textTurn e ph c w) ph) = t"
    and "prisma w \<or> redis w \<Longrightarrow> currentStep (readSession (textTurn e ph c w) ph) = step r"
    and "prisma w \<or> redis w \<Longrightarrow> phone (readSession (textTurn e ph c w) ph) = ph"
    and "prisma (textTurn e ph c w) = prisma w"
    and "redis (textTurn e ph c w) = redis w"
proof -
  let ?p = "textPayload ph c"
  let ?w2 = "handlerStart w ph"
  let ?ml = "trim (toLowerCase c)"
  have ne': "trim ?ml \<noteq> []" and nf': "checkTurmaExists e (trim ?ml) = None"
    using ne nf by (simp_all add: classCodeOf_def)
  note hc = handleClassCode_fail[OF ne' nf', of ?w2 ph, unfolded handlerStart_frame]
  let ?w3 = "snd (handleClassCode e ?w2 ?ml ph)"
  have d: "determineResponse e (handlerStart w (pl_phone ?p)) (readSession w (pl_phone ?p))
             (messageContentOf ?p) = (Reply r, ?w3)"
    using class_code_determine[OF st phn ne nf] by (simp add: r_def t_def)
  note te = turn_reply_effects[OF d, unfolded textPayload_simps]
  show "events (textTurn e ph c w)
      = events w @ Engine # (if prisma w then [LogWrite Incoming] else [])
               @ [SessionUpdate ''contract_class_code'', SessionUpdate (step r), Send ph r]
               @ (if zapiSend e ph r \<and> prisma w then [LogWrite Outgoing] else [])"
    by (simp add: textTurn_def te(1) hc(3,4) handlerStart_frame)
  show "prisma (textTurn e ph c w) = prisma w" "redis (textTurn e ph c w) = redis w"
    by (simp_all add: textTurn_def te(5,6) hc(4,5))
  {
    assume up: "prisma w \<or> redis w"
    then have up3: "prisma ?w3 \<or> redis ?w3" by (simp add: hc(4,5))
    show "currentStep (readSession (textTurn e ph c w) ph) = step r"
      unfolding textTurn_def by (rule te(3)[OF up3])
    show "phone (readSession (textTurn e ph c w) ph) = ph"
      unfolding textTurn_def by (rule te(4)[OF up3])
  }
  assume rd: "redis w"
  then have up3: "prisma ?w3 \<or> redis ?w3" by (simp add: hc(5))
  have "data (readSession (textTurn e ph c w) ph) = data (readSession ?w3 ph)"
    unfolding textTurn_def by (rule te(2)[OF up3])
  then show "tentativasOf (readSession (textTurn e ph c w) ph) = t"
    using hc(2)[OF rd] by (simp add: tentativasOf_def dataProp_def t_def)
qed




section \<open>Side effects of a turn\<close>

lemma effects_refl: "\<exists>hs. events w = events w @ hs \<and> list_all handlerEvent hs"
  by simp

lemma effects_trans:
  assumes "\<exists>hs. events w1 = events w @ hs \<and> list_all handlerEvent hs"
    and "\<exists>hs. events w2 = events w1 @ hs \<and> list_all handlerEvent hs"
  shows "\<exists>hs. events w2 = events w @ hs \<and> list_all handlerEvent hs"
proof -
  from assms obtain hs1 hs2 where "events w1 = events w @ hs1" "list_all handlerEvent hs1"
    "events w2 = events w1 @ hs2" "list_all handlerEvent hs2" by blast
  then have "events w2 = events w @ (hs1 @ hs2) \<and> list_all handlerEvent (hs1 @ hs2)" by simp
  then show ?thesis by blast
qed

lemma read_effects:
  "\<exists>hs. events (snd (getOrCreateSession w ph)) = events w @ hs \<and> list_all handlerEvent hs"
  by (simp add: getOrCreateSession_frame)

lemma updateSession_effects:
  "\<exists>hs. events (updateSession w ph st m dat) = events w @ hs \<and> list_all handlerEvent hs"
  by (simp add: updateSession_frame)

lemma updateClienteData_effects:
  "\<exists>hs. events (updateClienteData w ph k v) = events w @ hs \<and> list_all handlerEvent hs"
  using updateClienteData_events[of w ph k v] by auto

lemma updatePackageData_effects:
  "\<exists>hs. events (updatePackageData w ph k v) = events w @ hs \<and> list_all handlerEvent hs"
  using updatePackageData_events[of w ph k v] by auto

lemma applyWrites_effects:
  "\<exists>hs. events (applyWrites w ph ws) = events w @ hs \<and> list_all handlerEvent hs"
proof (induction w ph ws rule: applyWrites.induct)
  case (1 w ph)
  show ?case by simp
next
  case (2 w ph k v ws)
  show ?case by (simp only: applyWrites.simps) (rule effects_trans[OF updateClienteData_effects 2])
next
  case (3 w ph k v ws)
  show ?case by (simp only: applyWrites.simps) (rule effects_trans[OF updatePackageData_effects 3])
qed

lemma applyWrites_prisma: "prisma (applyWrites w ph ws) = prisma w"
  by (induction w ph ws rule: applyWrites.induct)
     (simp_all add: updateClienteData_frame updatePackageData_frame)

lemma handleContractCpf_effects:
  "\<exists>hs. events (snd (handleContractCpf e w m ph)) = events w @ hs \<and> list_all handlerEvent hs"
  "prisma (snd (handleContractCpf e w m ph)) = prisma w"
  using updateClienteData_effects[of w ph "''cpf''" "JStr (onlyDigits m)"]
  by (simp_all add: handleContractCpf_def Let_def updateClienteData_frame split: option.splits)

lemma handleContractCpf_reply: "fst (handleContractCpf e w m ph) \<noteq> NoReply"
  by (simp add: handleContractCpf_def Let_def split: option.splits)

lemma handleClassCode_effects:
  "\<exists>hs. events (snd (handleClassCode e w m ph)) = events w @ hs \<and> list_all handlerEvent hs"
  "prisma (snd (handleClassCode e w m ph)) = prisma w"
proof -
  obtain s w1 where g: "getOrCreateSession w ph = (s, w1)" by (cases "getOrCreateSession w ph")
  note f = getOrCreateSession_frame_pair[OF g]
  show "\<exists>hs. events (snd (handleClassCode e w m ph)) = events w @ hs \<and> list_all handlerEvent hs"
    using updateClienteData_effects[of w ph "''turmaId''"] f
    by (simp add: handleClassCode_def Let_def g updateSession_frame split: option.splits)
  show "prisma (snd (handleClassCode e w m ph)) = prisma w"
    using f
    by (simp add: handleClassCode_def Let_def g updateSession_frame updateClienteData_frame
          split: option.splits)
qed

lemma handleClassCode_reply: "fst (handleClassCode e w m ph) \<noteq> NoReply"
  by (simp add: handleClassCode_def Let_def split: option.splits prod.splits)

lemma handlePackageSelection_effects:
  "\<exists>hs. events (snd (handlePackageSelection e w m ph)) = events w @ hs \<and> list_all handlerEvent hs"
  "prisma (snd (handlePackageSelection e w m ph)) = prisma w"
proof -
  obtain s w1 where g: "getOrCreateSession w ph = (s, w1)" by (cases "getOrCreateSession w ph")
  note f = getOrCreateSession_frame_pair[OF g]
  have two: "\<exists>hs. events (updatePackageData (updatePackageData w1 ph k1 v1) ph k2 v2) = events w @ hs
                \<and> list_all handlerEvent hs" for k1 v1 k2 v2
  proof -
    have "\<exists>hs. events (updatePackageData w1 ph k1 v1) = events w @ hs \<and> list_all handlerEvent hs"
      using updatePackageData_effects[of w1 ph k1 v1] f by simp
    from effects_trans[OF this updatePackageData_effects] show ?thesis .
  qed
  show "\<exists>hs. events (snd (handlePackageSelection e w m ph)) = events w @ hs \<and> list_all handlerEvent hs"
    using two f by (simp add: handlePackageSelection_def Let_def g)
  show "prisma (snd (handlePackageSelection e w m ph)) = prisma w"
    using f by (simp add: handlePackageSelection_def Let_def g updatePackageData_frame)
qed

lemma handlePackageSelection_reply: "fst (handlePackageSelection e w m ph) \<noteq> NoReply"
  by (simp add: handlePackageSelection_def Let_def split: prod.splits)

lemma handleBillingCpf_events: "events (snd (handleBillingCpf e w m ph)) = events w"
proof -
  obtain s w1 where g1: "getOrCreateSession w ph = (s, w1)" by (cases "getOrCreateSession w ph")
  obtain s2 w2 where g2: "getOrCreateSession w1 ph = (s2, w2)" by (cases "getOrCreateSession w1 ph")
  have e1: "events w1 = events w" using getOrCreateSession_frame_pair[OF g1] by simp
  have e2: "events w2 = events w" using getOrCreateSession_frame_pair[OF g2] e1 by simp
  show ?thesis
    by (simp add: handleBillingCpf_def Let_def g1 g2 e1 e2 split: option.splits jv.splits)
qed

lemma handleBillingCpf_prisma: "prisma (snd (handleBillingCpf e w m ph)) = prisma w"
proof -
  obtain s w1 where g1: "getOrCreateSession w ph = (s, w1)" by (cases "getOrCreateSession w ph")
  obtain s2 w2 where g2: "getOrCreateSession w1 ph = (s2, w2)" by (cases "getOrCreateSession w1 ph")
  have e1: "prisma w1 = prisma w" using getOrCreateSession_frame_pair[OF g1] by simp
  have e2: "prisma w2 = prisma w" using getOrCreateSession_frame_pair[OF g2] e1 by simp
  show ?thesis
    by (simp add: handleBillingCpf_def Let_def g1 g2 e1 e2 split: option.splits jv.splits)
qed

lemma processPaymentCarne_effects:
  "\<exists>hs. events (snd (processPaymentCarne e w ph n)) = events w @ hs \<and> list_all handlerEvent hs"
  "prisma (snd (processPaymentCarne e w ph n)) = prisma w"
proof -
  obtain s w1 where g: "getOrCreateSession w ph = (s, w1)" by (cases "getOrCreateSession w ph")
  note f = getOrCreateSession_frame_pair[OF g]
  show "\<exists>hs. events (snd (processPaymentCarne e w ph n)) = events w @ hs \<and> list_all handlerEvent hs"
    using f by (simp add: processPaymentCarne_def Let_def g split: carneResult.splits bool.splits)
  show "prisma (snd (processPaymentCarne e w ph n)) = prisma w"
    using f by (simp add: processPaymentCarne_def Let_def g split: carneResult.splits bool.splits)
qed

lemma processPaymentCarne_reply: "fst (processPaymentCarne e w ph n) \<noteq> NoReply"
  by (simp add: processPaymentCarne_def Let_def split: prod.splits carneResult.splits bool.splits)

lemma handleCarneParcelas_effects:
  "\<exists>hs. events (snd (handleCarneParcelas e w m ph)) = events w @ hs \<and> list_all handlerEvent hs"
  "prisma (snd (handleCarneParcelas e w m ph)) = prisma w"
proof -
  obtain s w1 where g1: "getOrCreateSession w ph = (s, w1)" by (cases "getOrCreateSession w ph")
  obtain s2 w2 where g2: "getOrCreateSession w1 ph = (s2, w2)" by (cases "getOrCreateSession w1 ph")
  note f1 = getOrCreateSession_frame_pair[OF g1]
  note f2 = getOrCreateSession_frame_pair[OF g2]
  have pay: "\<exists>hs. events (snd (processPaymentCarne e (updatePackageData w1 ph k v) ph n)) = events w @ hs
               \<and> list_all handlerEvent hs" for k v n
  proof -
    have "\<exists>hs. events (updatePackageData w1 ph k v) = events w @ hs \<and> list_all handlerEvent hs"
      using updatePackageData_effects[of w1 ph k v] f1 by simp
    from effects_trans[OF this processPaymentCarne_effects(1)] show ?thesis .
  qed
  show "\<exists>hs. events (snd (handleCarneParcelas e w m ph)) = events w @ hs \<and> list_all handlerEvent hs"
    using pay f1 f2 by (simp add: handleCarneParcelas_def Let_def g1 g2)
  show "prisma (snd (handleCarneParcelas e w m ph)) = prisma w"
    using f1 f2
    by (simp add: handleCarneParcelas_def Let_def g1 g2 processPaymentCarne_effects(2)
          updatePackageData_frame)
qed

lemma handleCarneParcelas_reply: "fst (handleCarneParcelas e w m ph) \<noteq> NoReply"
  using processPaymentCarne_reply
  by (simp add: handleCarneParcelas_def Let_def split: prod.splits)

lemma handleExistingClient_reply: "handleExistingClient m \<noteq> NoReply"
  by (simp add: handleExistingClient_def)

lemma determineResponse_null:
  assumes n: "fst (determineResponse e w s m) = NoReply"
  shows "currentStep s \<in> set [''main_menu'', ''existing_client_menu'', ''billing_cpf'']
         \<or> currentStep s \<notin> set stepNames"
proof (rule ccontr)
  assume a: "\<not> (currentStep s \<in> set [''main_menu'', ''existing_client_menu'', ''billing_cpf'']
         \<or> currentStep s \<notin> set stepNames)"
  then have i: "currentStep s \<in> set stepNames"
    and x: "currentStep s \<noteq> ''main_menu''" "currentStep s \<noteq> ''existing_client_menu''"
      "currentStep s \<noteq> ''billing_cpf''"
    by simp_all
  have o: "fst (case otherSteps e (currentStep s) (trim (toLowerCase m)) s w of
              (Some r, writes) \<Rightarrow> (Reply r, applyWrites w (phone s) writes)
            | (None, writes) \<Rightarrow> (Thrown, applyWrites w (phone s) writes)) \<noteq> NoReply"
    by (simp split: prod.splits option.splits)
  from i have "fst (determineResponse e w s m) \<noteq> NoReply"
    unfolding determineResponse_def Let_def
    using x o handleContractCpf_reply[of e w "trim (toLowerCase m)" "phone s"]
      handleClassCode_reply[of e w "trim (toLowerCase m)" "phone s"]
      handlePackageSelection_reply[of e w "trim (toLowerCase m)" "phone s"]
      handleCarneParcelas_reply[of e w "trim (toLowerCase m)" "phone s"]
      handleExistingClient_reply[of "trim (toLowerCase m)"]
    by (simp add: stepNames_def split: if_split) blast
  with n show False by simp
qed

lemma determineResponse_effects:
  "\<exists>hs. events (snd (determineResponse e w s m)) = events w @ hs \<and> list_all handlerEvent hs
        \<and> (fst (determineResponse e w s m) = NoReply \<longrightarrow> hs = [])"
  "prisma (snd (determineResponse e w s m)) = prisma w"
proof -
  let ?ml = "trim (toLowerCase m)"
  let ?P = "\<lambda>x. \<exists>hs. events (snd x) = events w @ hs \<and> list_all handlerEvent hs \<and> (fst x = NoReply \<longrightarrow> hs = [])"
  have same: "?P (r, w)" for r by simp
  have a: "?P (handleContractCpf e w ?ml (phone s))"
    using handleContractCpf_effects(1)[of e w ?ml "phone s"] handleContractCpf_reply[of e w ?ml "phone s"]
    by simp
  have b: "?P (handleClassCode e w ?ml (phone s))"
    using handleClassCode_effects(1)[of e w ?ml "phone s"] handleClassCode_reply[of e w ?ml "phone s"]
    by simp
  have c: "?P (handlePackageSelection e w ?ml (phone s))"
    using handlePackageSelection_effects(1)[of e w ?ml "phone s"]
      handlePackageSelection_reply[of e w ?ml "phone s"]
    by simp
  have d: "?P (handleBillingCpf e w ?ml (phone s))"
    by (simp add: handleBillingCpf_events)
  have f: "?P (handleCarneParcelas e w ?ml (phone s))"
    using handleCarneParcelas_effects(1)[of e w ?ml "phone s"] handleCarneParcelas_reply[of e w ?ml "phone s"]
    by simp
  have g: "?P (case otherSteps e (currentStep s) ?ml s w of
              (Some r, writes) \<Rightarrow> (Reply r, applyWrites w (phone s) writes)
            | (None, writes) \<Rightarrow> (Thrown, applyWrites w (phone s) writes))"
    using applyWrites_effects[of w "phone s"]
    by (simp split: prod.splits option.splits)
  have ifP: "?P x \<Longrightarrow> ?P y \<Longrightarrow> ?P (if c then x else y)" for c x y by simp
  show "?P (determineResponse e w s m)"
    unfolding determineResponse_def Let_def
    by (intro ifP same a b c d f g)
  let ?Q = "\<lambda>x. prisma (snd x) = prisma w"
  have ifQ: "?Q x \<Longrightarrow> ?Q y \<Longrightarrow> ?Q (if c then x else y)" for c x y by simp
  have sameQ: "?Q (r, w)" for r by simp
  have gQ: "?Q (case otherSteps e (currentStep s) ?ml s w of
              (Some r, writes) \<Rightarrow> (Reply r, applyWrites w (phone s) writes)
            | (None, writes) \<Rightarrow> (Thrown, applyWrites w (phone s) writes))"
    by (simp add: applyWrites_prisma split: prod.splits option.splits)
  show "prisma (snd (determineResponse e w s m)) = prisma w"
    unfolding determineResponse_def Let_def
    by (intro ifQ sameQ gQ handleContractCpf_effects(2) handleClassCode_effects(2)
          handlePackageSelection_effects(2) handleBillingCpf_prisma handleCarneParcelas_effects(2))
qed

text \<open>
  C8, as amended. The events of a turn are, in order: the inbound log write, once when
  the message log can be written and not at all otherwise; what the step handler
  records, which are session updates (the handlers store fields as they go) and calls of
  the payment backend; and, when the transition function returns a reply, one session
  update to the step of the reply, one outbound send, and one outgoing log write when
  the send succeeded and the log can be written. When the transition function returns
  null, the handler has recorded nothing and nothing follows: the turn has no session
  update and no outbound send. The transition function returns null only in the steps
  \<open>main_menu\<close>, \<open>existing_client_menu\<close> and \<open>billing_cpf\<close>, and in a step it has no case
  for.
\<close>

theorem turn_side_effects:
  "\<exists>hs. list_all handlerEvent hs
     \<and> newEvents w (processIncomingMessage e w p)
         = Engine # (if prisma w then [LogWrite Incoming] else []) @ hs
             @ (case fst (determineResponse e (handlerStart w (pl_phone p)) (readSession w (pl_phone p))
                            (messageContentOf p)) of
                  Reply r \<Rightarrow>
                    [SessionUpdate (step r), Send (pl_phone p) r]
                      @ (if zapiSend e (pl_phone p) r \<and> prisma w then [LogWrite Outgoing] else [])
                | NoReply \<Rightarrow> []
                | Thrown \<Rightarrow> [])
     \<and> (fst (determineResponse e (handlerStart w (pl_phone p)) (readSession w (pl_phone p))
               (messageContentOf p)) = NoReply
          \<longrightarrow> hs = []
            \<and> (currentStep (readSession w (pl_phone p))
                  \<in> set [''main_menu'', ''existing_client_menu'', ''billing_cpf'']
                \<or> currentStep (readSession w (pl_phone p)) \<notin> set stepNames))"
proof -
  let ?ph = "pl_phone p"
  let ?w2 = "handlerStart w ?ph"
  obtain rp w3 where d: "determineResponse e ?w2 (readSession w ?ph) (messageContentOf p) = (rp, w3)"
    by (cases "determineResponse e ?w2 (readSession w ?ph) (messageContentOf p)")
  from determineResponse_effects(1)[of e ?w2 "readSession w ?ph" "messageContentOf p"] d
  obtain hs where ev: "events w3 = events ?w2 @ hs" and hs: "list_all handlerEvent hs"
    and nr: "rp = NoReply \<longrightarrow> hs = []"
    by auto
  have pr: "prisma w3 = prisma w"
    using determineResponse_effects(2)[of e ?w2 "readSession w ?ph" "messageContentOf p"] d
    by (simp add: handlerStart_frame)
  have "newEvents w (processIncomingMessage e w p)
         = Engine # (if prisma w then [LogWrite Incoming] else []) @ hs
             @ (case rp of
                  Reply r \<Rightarrow>
                    [SessionUpdate (step r), Send ?ph r]
                      @ (if zapiSend e ?ph r \<and> prisma w then [LogWrite Outgoing] else [])
                | NoReply \<Rightarrow> []
                | Thrown \<Rightarrow> [])"
  proof (cases rp)
    case (Reply r)
    from turn_reply_effects(1)[OF d[unfolded Reply]]
    show ?thesis by (simp add: newEvents_def Reply ev pr handlerStart_frame)
  next
    case NoReply
    with turn_no_reply[OF d] show ?thesis
      by (simp add: newEvents_def ev handlerStart_frame)
  next
    case Thrown
    with turn_no_reply[OF d] show ?thesis
      by (simp add: newEvents_def ev handlerStart_frame)
  qed
  moreover have "rp = NoReply \<longrightarrow>
      currentStep (readSession w ?ph) \<in> set [''main_menu'', ''existing_client_menu'', ''billing_cpf'']
      \<or> currentStep (readSession w ?ph) \<notin> set stepNames"
    using determineResponse_null[of e ?w2 "readSession w ?ph" "messageContentOf p"] d by simp
  ultimately show ?thesis using hs nr d by auto
qed

theorem turn_side_effects_witness:
  "(\<exists>hs. list_all handlerEvent hs
      \<and> newEvents (worldAt True True ''5511999990000'' ''contract_class_code'' None)
          (processIncomingMessage exampleEnv
             (worldAt True True ''5511999990000'' ''contract_class_code'' None)
             (textPayload ''5511999990000'' ''ABC''))
        = [Engine, LogWrite Incoming] @ hs
            @ [SessionUpdate ''contract_class_code'',
               Send ''5511999990000''
                 \<lparr>step = ''contract_class_code'', message = MsgClassNotFound, optionList = None\<rparr>,
               LogWrite Outgoing])
   \<and> newEvents (worldAt True True ''5511999990000'' ''main_menu'' None)
        (processIncomingMessage exampleEnv (worldAt True True ''5511999990000'' ''main_menu'' None)
           (textPayload ''5511999990000'' ''Hello''))
      = [Engine, LogWrite Incoming]"
proof -
  let ?ph = "''5511999990000''"
  let ?w = "worldAt True True ?ph ''contract_class_code'' None"
  let ?v = "worldAt True True ?ph ''main_menu'' None"
  let ?again = "\<lparr>step = ''contract_class_code'', message = MsgClassNotFound, optionList = None\<rparr>"
  have st: "currentStep (readSession ?w ?ph) = ''contract_class_code''"
    and phn: "phone (readSession ?w ?ph) = ?ph"
    and dn: "data (readSession ?w ?ph) = None"
    and stv: "currentStep (readSession ?v ?ph) = ''main_menu''"
    by (simp_all add: worldAt_read)
  have z: "tentativasOf (readSession ?w ?ph) = 0"
    by (simp add: tentativasOf_def dataProp_def dn)
  have cc: "classCodeOf ''ABC'' \<noteq> []"
    by (simp add: classCodeOf_def toLowerCase_def lowerChar_def trim_def isSpaceChar_def)
  have nf: "checkTurmaExists exampleEnv (classCodeOf ''ABC'') = None" by (simp add: exampleEnv_def)
  have d: "fst (determineResponse exampleEnv (handlerStart ?w ?ph) (readSession ?w ?ph) ''ABC'')
             = Reply ?again"
    using class_code_determine[OF st phn cc nf] by (simp add: z)
  have lo: "trim (toLowerCase ''Hello'') = ''hello''"
    by (simp add: toLowerCase_def lowerChar_def trim_def isSpaceChar_def)
  have h: "handleMainMenu ''hello'' = NoReply"
    by (simp add: handleMainMenu_def trim_def isSpaceChar_def)
  have dv: "fst (determineResponse exampleEnv (handlerStart ?v ?ph) (readSession ?v ?ph) ''Hello'')
             = NoReply"
    using main_menu_determine[of ?v "textPayload ?ph ''Hello''" exampleEnv] stv by (simp add: lo h)
  have zs: "zapiSend exampleEnv ?ph ?again" by (simp add: exampleEnv_def)
  from turn_side_effects[of ?w exampleEnv "textPayload ?ph ''ABC''"] d zs
  have a: "\<exists>hs. list_all handlerEvent hs
      \<and> newEvents ?w (processIncomingMessage exampleEnv ?w (textPayload ?ph ''ABC''))
        = [Engine, LogWrite Incoming] @ hs
            @ [SessionUpdate ''contract_class_code'', Send ?ph ?again, LogWrite Outgoing]"
    by simp
  from turn_side_effects[of ?v exampleEnv "textPayload ?ph ''Hello''"] dv
  have b: "newEvents ?v (processIncomingMessage exampleEnv ?v (textPayload ?ph ''Hello''))
      = [Engine, LogWrite Incoming]"
    by auto
  from a b show ?thesis by blast
qed

theorem turn_counts_counterexample:
  "sessionUpdates
     (newEvents (worldAt True True ''5511999990000'' ''contract_class_code'' None)
        (textTurn exampleEnv ''5511999990000'' ''ABC''
           (worldAt True True ''5511999990000'' ''contract_class_code'' None)))
     = [''contract_class_code'', ''contract_class_code'']
   \<and> newEvents (worldAt True True ''5511999990000'' ''contract_class_code'' None)
        (textTurn sendFailsEnv ''5511999990000'' ''ABC''
           (worldAt True True ''5511999990000'' ''contract_class_code'' None))
     = [Engine, LogWrite Incoming, SessionUpdate ''contract_class_code'',
        SessionUpdate ''contract_class_code'',
        Send ''5511999990000''
          \<lparr>step = ''contract_class_code'', message = MsgClassNotFound, optionList = None\<rparr>]
   \<and> newEvents (worldAt False True ''5511999990000'' ''contract_class_code'' None)
        (textTurn exampleEnv ''5511999990000'' ''ABC''
           (worldAt False True ''5511999990000'' ''contract_class_code'' None))
     = [Engine, SessionUpdate ''contract_class_code'', SessionUpdate ''contract_class_code'',
        Send ''5511999990000''
          \<lparr>step = ''contract_class_code'', message = MsgClassNotFound, optionList = None\<rparr>]"
proof -
  let ?ph = "''5511999990000''"
  let ?w = "worldAt True True ?ph ''contract_class_code'' None"
  let ?v = "worldAt False True ?ph ''contract_class_code'' None"
  let ?again = "\<lparr>step = ''contract_class_code'', message = MsgClassNotFound, optionList = None\<rparr>"
  have st: "currentStep (readSession ?w ?ph) = ''contract_class_code''"
    and phn: "phone (readSession ?w ?ph) = ?ph"
    and dn: "data (readSession ?w ?ph) = None"
    and stv: "currentStep (readSession ?v ?ph) = ''contract_class_code''"
    and phv: "phone (readSession ?v ?ph) = ?ph"
    and dv: "data (readSession ?v ?ph) = None"
    by (simp_all add: worldAt_read)
  have z: "tentativasOf (readSession ?w ?ph) = 0" "tentativasOf (readSession ?v ?ph) = 0"
    by (simp_all add: tentativasOf_def dataProp_def dn dv)
  have cc: "classCodeOf ''ABC'' \<noteq> []"
    by (simp add: classCodeOf_def toLowerCase_def lowerChar_def trim_def isSpaceChar_def)
  have nf: "checkTurmaExists exampleEnv (classCodeOf ''ABC'') = None"
    "checkTurmaExists sendFailsEnv (classCodeOf ''ABC'') = None"
    by (simp_all add: exampleEnv_def sendFailsEnv_def)
  have zs: "\<And>r. zapiSend exampleEnv ?ph r" "\<And>r. \<not> zapiSend sendFailsEnv ?ph r"
    by (simp_all add: exampleEnv_def sendFailsEnv_def)
  have a: "newEvents ?w (textTurn exampleEnv ?ph ''ABC'' ?w)
      = [Engine, LogWrite Incoming, SessionUpdate ''contract_class_code'',
         SessionUpdate ''contract_class_code'', Send ?ph ?again, LogWrite Outgoing]"
    by (rule newEvents_append) (simp add: class_code_fail_turn(1)[OF st phn cc nf(1)] z zs)
  have b: "newEvents ?w (textTurn sendFailsEnv ?ph ''ABC'' ?w)
      = [Engine, LogWrite Incoming, SessionUpdate ''contract_class_code'',
         SessionUpdate ''contract_class_code'', Send ?ph ?again]"
    by (rule newEvents_append) (simp add: class_code_fail_turn(1)[OF st phn cc nf(2)] z zs)
  have c: "newEvents ?v (textTurn exampleEnv ?ph ''ABC'' ?v)
      = [Engine, SessionUpdate ''contract_class_code'',
         SessionUpdate ''contract_class_code'', Send ?ph ?again]"
    by (rule newEvents_append) (simp add: class_code_fail_turn(1)[OF stv phv cc nf(1)] z zs)
  from a b c show ?thesis by simp
qed
section \<open>Package selection\<close>

lemma truthy_data_cache:
  "truthy (dataProp (readSession w ph) k) \<Longrightarrow> redis w"
proof (rule ccontr)
  assume t: "truthy (dataProp (readSession w ph) k)" and "\<not> redis w"
  then have "data (readSession w ph) = None" by (simp add: readSession_no_cache)
  with t show False by (simp add: dataProp_def)
qed

lemma updatePackageData_stored:
  fixes w :: world and ph k :: string and v :: jv
  assumes "redis w"
  shows "data (readSession (updatePackageData w ph k v) ph)
           = Some (fmupd ''pacoteData''
                     (assignKey (objectOr (dataProp (readSession w ph) ''pacoteData'')) k v)
                     (spreadData (data (readSession w ph))))"
proof -
  obtain s w1 where g: "getOrCreateSession w ph = (s, w1)" by (cases "getOrCreateSession w ph")
  then have s: "s = readSession w ph" by (simp add: readSession_def)
  have "redis w1"
    using getOrCreateSession_frame_pair[OF g] assms by simp
  then have up: "redis w1 \<or> (prisma w1 \<and> d = None)" for d by simp
  show ?thesis
    by (simp add: updatePackageData_def g s updateSession_read(1)[OF up])
qed

lemma updatePackageData_object:
  assumes up: "redis w"
    and ob: "dataProp (readSession w ph) ''pacoteData'' = Some (JObj m)"
  shows "dataProp (readSession (updatePackageData w ph k v) ph) ''pacoteData'' = Some (JObj (fmupd k v m))"
    and "key \<noteq> ''pacoteData'' \<Longrightarrow>
           dataProp (readSession (updatePackageData w ph k v) ph) key = dataProp (readSession w ph) key"
  using ob
  by (simp_all add: updatePackageData_stored[OF up] dataProp_def objectOr_def assignKey_def
        spreadData_def split: option.splits)

lemma foldl_valor: "foldl (\<lambda>total i. total + valor i) a xs = a + sum_list (map valor xs)"
  by (induction xs arbitrary: a) simp_all

lemma getProp_object:
  assumes "truthy (getProp v k)"
  shows "\<exists>m. v = Some (JObj m)"
proof (cases v)
  case None
  with assms show ?thesis by simp
next
  case (Some x)
  with assms show ?thesis by (cases x) simp_all
qed

lemma handlePackageSelection_cases:
  fixes w :: world and e :: env and msg ph :: string and itens :: "item list"
  defines "nums \<equiv> parsePositions (filter (\<lambda>c. \<not> isSpaceChar c) msg)"
  defines "bad \<equiv> filter (\<lambda>k. k < 1 \<or> k > int (length itens)) nums"
  defines "sel \<equiv> map (\<lambda>k. itens ! nat (k - 1)) nums"
  assumes cd: "truthy (dataProp (readSession w ph) ''clienteData'')"
    and cfg: "truthy (getProp (dataProp (readSession w ph) ''pacoteData'') ''configuracaoTurmaId'')"
    and cat: "db_getItensCustomizados e (getProp (dataProp (readSession w ph) ''pacoteData'') ''configuracaoTurmaId'') = itens"
    and ne: "itens \<noteq> []"
  shows "nums = [] \<Longrightarrow>
           handlePackageSelection e w msg ph
             = (Reply \<lparr>step = ''package_selection'', message = MsgAskNumbers, optionList = None\<rparr>,
                snd (getOrCreateSession w ph))"
    and "bad \<noteq> [] \<Longrightarrow>
           handlePackageSelection e w msg ph
             = (Reply \<lparr>step = ''package_selection'',
                       message = MsgInvalidNumbers (joinWith '', '' (map showInt bad)) (length itens),
                       optionList = None\<rparr>,
                snd (getOrCreateSession w ph))"
    and "nums \<noteq> [] \<Longrightarrow> bad = [] \<Longrightarrow>
           handlePackageSelection e w msg ph
             = (Reply \<lparr>step = ''package_confirmation'',
                       message = MsgPackageSummary sel (sum_list (map valor sel)),
                       optionList = Some [''sim'', ''nao'']\<rparr>,
                updatePackageData
                  (updatePackageData (snd (getOrCreateSession w ph)) ph ''itensSelecionados'' (JItems sel))
                  ph ''valorTotal'' (JNum (sum_list (map valor sel))))"
proof -
  obtain s w1 where g: "getOrCreateSession w ph = (s, w1)" by (cases "getOrCreateSession w ph")
  then have s: "s = readSession w ph" by (simp add: readSession_def)
  have bn: "bad \<noteq> [] \<Longrightarrow> nums \<noteq> []" by (auto simp: bad_def)
  note base = handlePackageSelection_def Let_def g api_getItensCustomizados_def
  show "nums = [] \<Longrightarrow>
           handlePackageSelection e w msg ph
             = (Reply \<lparr>step = ''package_selection'', message = MsgAskNumbers, optionList = None\<rparr>,
                snd (getOrCreateSession w ph))"
    using cd cfg cat ne by (simp add: base s nums_def)
  show "bad \<noteq> [] \<Longrightarrow>
           handlePackageSelection e w msg ph
             = (Reply \<lparr>step = ''package_selection'',
                       message = MsgInvalidNumbers (joinWith '', '' (map showInt bad)) (length itens),
                       optionList = None\<rparr>,
                snd (getOrCreateSession w ph))"
    using cd cfg cat ne bn by (simp add: base s nums_def bad_def)
  show "nums \<noteq> [] \<Longrightarrow> bad = [] \<Longrightarrow>
           handlePackageSelection e w msg ph
             = (Reply \<lparr>step = ''package_confirmation'',
                       message = MsgPackageSummary sel (sum_list (map valor sel)),
                       optionList = Some [''sim'', ''nao'']\<rparr>,
                updatePackageData
                  (updatePackageData (snd (getOrCreateSession w ph)) ph ''itensSelecionados'' (JItems sel))
                  ph ''valorTotal'' (JNum (sum_list (map valor sel))))"
    using cd cfg cat ne by (simp add: base s nums_def bad_def sel_def foldl_valor)
qed

lemma handlePackageSelection_stored:
  fixes w :: world and ph :: string and sel :: "item list" and tot :: rat
  assumes cd: "truthy (dataProp (readSession w ph) ''clienteData'')"
    and cfg: "truthy (getProp (dataProp (readSession w ph) ''pacoteData'') ''configuracaoTurmaId'')"
  defines "w' \<equiv> updatePackageData
                  (updatePackageData (snd (getOrCreateSession w ph)) ph ''itensSelecionados'' (JItems sel))
                  ph ''valorTotal'' (JNum tot)"
  shows "getProp (dataProp (readSession w' ph) ''pacoteData'') ''valorTotal'' = Some (JNum tot)"
    and "getProp (dataProp (readSession w' ph) ''pacoteData'') ''itensSelecionados'' = Some (JItems sel)"
    and "dataProp (readSession w' ph) ''clienteData'' = dataProp (readSession w ph) ''clienteData''"
proof -
  let ?w1 = "snd (getOrCreateSession w ph)"
  let ?w2 = "updatePackageData ?w1 ph ''itensSelecionados'' (JItems sel)"
  from truthy_data_cache[OF cd] have up1: "redis ?w1"
    by (simp add: getOrCreateSession_frame)
  then have up2: "redis ?w2" by (simp add: updatePackageData_frame)
  from getProp_object[OF cfg] obtain m where
    m: "dataProp (readSession ?w1 ph) ''pacoteData'' = Some (JObj m)"
    by (auto simp: readSession_idem)
  note a = updatePackageData_object[where k = "''itensSelecionados''" and v = "JItems sel", OF up1 m]
  note b = updatePackageData_object[where k = "''valorTotal''" and v = "JNum tot", OF up2 a(1)]
  show "getProp (dataProp (readSession w' ph) ''pacoteData'') ''valorTotal'' = Some (JNum tot)"
    and "getProp (dataProp (readSession w' ph) ''pacoteData'') ''itensSelecionados'' = Some (JItems sel)"
    by (simp_all add: w'_def b(1))
  show "dataProp (readSession w' ph) ''clienteData'' = dataProp (readSession w ph) ''clienteData''"
    by (simp add: w'_def b(2) a(2) readSession_idem)
qed

text \<open>
  C5. At \<open>package_selection\<close>, with the customer data and the cohort configuration in the
  session and a catalog of at least one item: the positions are the numbers parsed from
  the comma-separated input. The selection is accepted (reply \<open>package_confirmation\<close>)
  exactly when at least one position was parsed and every position lies between 1 and
  the length of the catalog. When some position lies outside, the reply stays at
  \<open>package_selection\<close>, names exactly the positions outside the range, and nothing is
  stored. On acceptance the items at the positions are stored and \<open>valorTotal\<close> is the sum
  of their values.
\<close>

theorem package_selection_by_position:
  fixes w :: world and e :: env and msg ph :: string and itens :: "item list"
  defines "nums \<equiv> parsePositions (filter (\<lambda>c. \<not> isSpaceChar c) msg)"
  defines "sel \<equiv> map (\<lambda>k. itens ! nat (k - 1)) nums"
  assumes cd: "truthy (dataProp (readSession w ph) ''clienteData'')"
    and cfg: "truthy (getProp (dataProp (readSession w ph) ''pacoteData'') ''configuracaoTurmaId'')"
    and cat: "db_getItensCustomizados e (getProp (dataProp (readSession w ph) ''pacoteData'') ''configuracaoTurmaId'') = itens"
    and ne: "itens \<noteq> []"
  shows "((\<exists>r. fst (handlePackageSelection e w msg ph) = Reply r \<and> step r = ''package_confirmation'')
            \<longleftrightarrow> nums \<noteq> [] \<and> list_all (\<lambda>k. 1 \<le> k \<and> k \<le> int (length itens)) nums)
     \<and> (\<not> list_all (\<lambda>k. 1 \<le> k \<and> k \<le> int (length itens)) nums \<longrightarrow>
           fst (handlePackageSelection e w msg ph)
             = Reply \<lparr>step = ''package_selection'',
                      message = MsgInvalidNumbers
                        (joinWith '', '' (map showInt (filter (\<lambda>k. k < 1 \<or> k > int (length itens)) nums)))
                        (length itens),
                      optionList = None\<rparr>
         \<and> filter (\<lambda>k. k < 1 \<or> k > int (length itens)) nums \<noteq> []
         \<and> events (snd (handlePackageSelection e w msg ph)) = events w)
     \<and> (nums \<noteq> [] \<and> list_all (\<lambda>k. 1 \<le> k \<and> k \<le> int (length itens)) nums \<longrightarrow>
           fst (handlePackageSelection e w msg ph)
             = Reply \<lparr>step = ''package_confirmation'',
                      message = MsgPackageSummary sel (sum_list (map valor sel)),
                      optionList = Some [''sim'', ''nao'']\<rparr>
         \<and> getProp (dataProp (readSession (snd (handlePackageSelection e w msg ph)) ph) ''pacoteData'')
               ''valorTotal'' = Some (JNum (sum_list (map valor sel)))
         \<and> getProp (dataProp (readSession (snd (handlePackageSelection e w msg ph)) ph) ''pacoteData'')
               ''itensSelecionados'' = Some (JItems sel))"
proof -
  let ?bad = "filter (\<lambda>k. k < 1 \<or> k > int (length itens)) nums"
  let ?ok = "list_all (\<lambda>k. 1 \<le> k \<and> k \<le> int (length itens)) nums"
  note cs = handlePackageSelection_cases[OF cd cfg cat ne, of msg, folded nums_def sel_def]
  have bo: "?bad = [] \<longleftrightarrow> ?ok"
    by (auto simp: filter_empty_conv list_all_iff)
  have A: "(\<exists>r. fst (handlePackageSelection e w msg ph) = Reply r \<and> step r = ''package_confirmation'')
            \<longleftrightarrow> nums \<noteq> [] \<and> ?ok"
  proof (cases "nums = []")
    case True
    then show ?thesis by (simp add: cs(1))
  next
    case False
    show ?thesis
    proof (cases "?bad = []")
      case True
      with False bo show ?thesis by (simp add: cs(3))
    next
      case b: False
      with False bo show ?thesis by (simp add: cs(2))
    qed
  qed
  have B: "fst (handlePackageSelection e w msg ph)
             = Reply \<lparr>step = ''package_selection'',
                      message = MsgInvalidNumbers (joinWith '', '' (map showInt ?bad)) (length itens),
                      optionList = None\<rparr>
         \<and> ?bad \<noteq> []
         \<and> events (snd (handlePackageSelection e w msg ph)) = events w"
    if "\<not> ?ok"
  proof -
    from that bo have b: "?bad \<noteq> []" by simp
    show ?thesis by (simp add: cs(2)[OF b] b getOrCreateSession_frame)
  qed
  have C: "fst (handlePackageSelection e w msg ph)
             = Reply \<lparr>step = ''package_confirmation'',
                      message = MsgPackageSummary sel (sum_list (map valor sel)),
                      optionList = Some [''sim'', ''nao'']\<rparr>
         \<and> getProp (dataProp (readSession (snd (handlePackageSelection e w msg ph)) ph) ''pacoteData'')
               ''valorTotal'' = Some (JNum (sum_list (map valor sel)))
         \<and> getProp (dataProp (readSession (snd (handlePackageSelection e w msg ph)) ph) ''pacoteData'')
               ''itensSelecionados'' = Some (JItems sel)"
    if "nums \<noteq> [] \<and> ?ok"
  proof -
    from that bo have n: "nums \<noteq> []" and b: "?bad = []" by simp_all
    show ?thesis
      by (simp add: cs(3)[OF n b] handlePackageSelection_stored[OF cd cfg] sel_def)
  qed
  from A B C show ?thesis by blast
qed

lemma exampleData_props:
  "truthy (dataProp (readSession (worldAt True True ph st (Some exampleData)) ph) ''clienteData'')"
  "truthy (getProp (dataProp (readSession (worldAt True True ph st (Some exampleData)) ph) ''pacoteData'')
     ''configuracaoTurmaId'')"
  by (simp_all add: dataProp_def worldAt_read exampleData_def)

theorem package_selection_by_position_witness:
  "fst (handlePackageSelection exampleEnv
          (worldAt True True ''5511999990000'' ''package_selection'' (Some exampleData))
          ''1, 3'' ''5511999990000'')
     = Reply \<lparr>step = ''package_confirmation'',
              message = MsgPackageSummary [exampleItens ! 0, exampleItens ! 2] 40,
              optionList = Some [''sim'', ''nao'']\<rparr>
   \<and> getProp (dataProp (readSession (snd (handlePackageSelection exampleEnv
          (worldAt True True ''5511999990000'' ''package_selection'' (Some exampleData))
          ''1, 3'' ''5511999990000'')) ''5511999990000'') ''pacoteData'') ''valorTotal''
     = Some (JNum 40)
   \<and> fst (handlePackageSelection exampleEnv
          (worldAt True True ''5511999990000'' ''package_selection'' (Some exampleData))
          ''1,4'' ''5511999990000'')
     = Reply \<lparr>step = ''package_selection'', message = MsgInvalidNumbers ''4'' 3, optionList = None\<rparr>"
proof -
  let ?ph = "''5511999990000''"
  let ?w = "worldAt True True ?ph ''package_selection'' (Some exampleData)"
  note cd = exampleData_props(1)[of ?ph "''package_selection''"]
  note cfg = exampleData_props(2)[of ?ph "''package_selection''"]
  have cat: "db_getItensCustomizados exampleEnv
      (getProp (dataProp (readSession ?w ?ph) ''pacoteData'') ''configuracaoTurmaId'') = exampleItens"
    by (simp add: exampleEnv_def)
  have ne: "exampleItens \<noteq> []" by (simp add: exampleItens_def)
  have p13: "parsePositions (filter (\<lambda>c. \<not> isSpaceChar c) ''1, 3'') = [1, 3]"
    and p14: "parsePositions (filter (\<lambda>c. \<not> isSpaceChar c) ''1,4'') = [1, 4]"
    by (simp_all add: parsePositions_def isSpaceChar_def trim_def parseInt_def isDigit_def digitVal_def)
  have len: "length exampleItens = 3" by (simp add: exampleItens_def)
  have s4: "showInt 4 = ''4''" by (simp add: showInt_def showNat.simps)
  have vs: "valor (exampleItens ! 0) + valor (exampleItens ! 2) = 40"
    by (simp add: exampleItens_def)
  from package_selection_by_position[OF cd cfg cat ne, of "''1, 3''", unfolded p13 len]
  have a: "fst (handlePackageSelection exampleEnv ?w ''1, 3'' ?ph)
      = Reply \<lparr>step = ''package_confirmation'',
               message = MsgPackageSummary [exampleItens ! 0, exampleItens ! 2] 40,
               optionList = Some [''sim'', ''nao'']\<rparr>
    \<and> getProp (dataProp (readSession (snd (handlePackageSelection exampleEnv ?w ''1, 3'' ?ph)) ?ph)
          ''pacoteData'') ''valorTotal'' = Some (JNum 40)"
    by (simp add: vs)
  from package_selection_by_position[OF cd cfg cat ne, of "''1,4''", unfolded p14 len]
  have b: "fst (handlePackageSelection exampleEnv ?w ''1,4'' ?ph)
      = Reply \<lparr>step = ''package_selection'', message = MsgInvalidNumbers ''4'' 3, optionList = None\<rparr>"
    by (simp add: s4)
  from a b show ?thesis by simp
qed

section \<open>The CPF of the billing step\<close>

lemma handleBillingCpf_unfold:
  assumes st: "currentStep (readSession w ph) = ''billing_cpf''"
  shows "fst (handleBillingCpf e w msg ph)
           = (let lookup = (\<lambda>cpf. case checkCpfExists e cpf of
                              None \<Rightarrow> Reply \<lparr>step = ''main_menu'', message = MsgCpfNotFound,
                                              optionList = Some getMainMenuOptions\<rparr>
                            | Some a \<Rightarrow> Reply \<lparr>step = ''main_menu'', message = MsgBillingSummary a,
                                                optionList = Some getMainMenuOptions\<rparr>);
                  again = Reply \<lparr>step = ''billing_cpf'', message = MsgBillingCpfInvalid, optionList = None\<rparr>;
                  cpfCtx = getProp (dataProp (readSession w ph) ''clienteData'') ''cpf''
              in if length (onlyDigits msg) = 11 then lookup (onlyDigits msg)
                 else if \<not> truthy cpfCtx then again
                 else case cpfCtx of
                        Some (JStr c) \<Rightarrow> if length (onlyDigits c) = 11 then lookup (onlyDigits c) else again
                      | _ \<Rightarrow> Thrown)"
proof -
  obtain s w1 where g1: "getOrCreateSession w ph = (s, w1)" by (cases "getOrCreateSession w ph")
  obtain s2 w2 where g2: "getOrCreateSession w1 ph = (s2, w2)" by (cases "getOrCreateSession w1 ph")
  have s: "s = readSession w ph" using g1 by (simp add: readSession_def)
  have "s2 = readSession w1 ph" using g2 by (simp add: readSession_def)
  also have "w1 = snd (getOrCreateSession w ph)" using g1 by simp
  finally have s2: "s2 = readSession w ph" by (simp add: readSession_idem)
  show ?thesis
    using st
    by (simp add: handleBillingCpf_def Let_def g1 g2 s s2 split: option.splits jv.splits)
qed

text \<open>
  C9. In the \<open>billing_cpf\<close> step, when the inbound text does not hold exactly eleven digits
  and the \<open>cpf\<close> stored in \<open>clienteData\<close> is a string holding exactly eleven digits, the
  customer is looked up with the digits of the stored CPF and the reply is the result of
  that lookup. The reply that asks again for a valid CPF is produced exactly when
  the inbound text does not hold eleven digits and the stored CPF is missing, empty, or
  a string that does not hold eleven digits.
\<close>

theorem billing_cpf_fallback:
  assumes st: "currentStep (readSession w ph) = ''billing_cpf''"
  shows "(length (onlyDigits msg) \<noteq> 11
          \<and> getProp (dataProp (readSession w ph) ''clienteData'') ''cpf'' = Some (JStr c)
          \<and> length (onlyDigits c) = 11 \<longrightarrow>
            fst (handleBillingCpf e w msg ph)
              = (case checkCpfExists e (onlyDigits c) of
                   None \<Rightarrow> Reply \<lparr>step = ''main_menu'', message = MsgCpfNotFound,
                                   optionList = Some getMainMenuOptions\<rparr>
                 | Some a \<Rightarrow> Reply \<lparr>step = ''main_menu'', message = MsgBillingSummary a,
                                     optionList = Some getMainMenuOptions\<rparr>))
     \<and> (fst (handleBillingCpf e w msg ph)
            = Reply \<lparr>step = ''billing_cpf'', message = MsgBillingCpfInvalid, optionList = None\<rparr>
          \<longleftrightarrow> length (onlyDigits msg) \<noteq> 11
              \<and> (case getProp (dataProp (readSession w ph) ''clienteData'') ''cpf'' of
                    None \<Rightarrow> True
                  | Some (JStr s) \<Rightarrow> length (onlyDigits s) \<noteq> 11
                  | Some (JNum n) \<Rightarrow> n = 0
                  | Some other \<Rightarrow> False))"
proof -
  have a: "fst (handleBillingCpf e w msg ph)
              = (case checkCpfExists e (onlyDigits c) of
                   None \<Rightarrow> Reply \<lparr>step = ''main_menu'', message = MsgCpfNotFound,
                                   optionList = Some getMainMenuOptions\<rparr>
                 | Some a \<Rightarrow> Reply \<lparr>step = ''main_menu'', message = MsgBillingSummary a,
                                     optionList = Some getMainMenuOptions\<rparr>)"
    if "length (onlyDigits msg) \<noteq> 11"
      and "getProp (dataProp (readSession w ph) ''clienteData'') ''cpf'' = Some (JStr c)"
      and "length (onlyDigits c) = 11"
  proof -
    from that(3) have "c \<noteq> []" by (auto simp: onlyDigits_def)
    with that show ?thesis
      by (simp add: handleBillingCpf_unfold[OF st] Let_def)
  qed
  have b: "fst (handleBillingCpf e w msg ph)
            = Reply \<lparr>step = ''billing_cpf'', message = MsgBillingCpfInvalid, optionList = None\<rparr>
          \<longleftrightarrow> length (onlyDigits msg) \<noteq> 11
              \<and> (case getProp (dataProp (readSession w ph) ''clienteData'') ''cpf'' of
                    None \<Rightarrow> True
                  | Some (JStr s) \<Rightarrow> length (onlyDigits s) \<noteq> 11
                  | Some (JNum n) \<Rightarrow> n = 0
                  | Some other \<Rightarrow> False)"
    by (auto simp: handleBillingCpf_unfold[OF st] Let_def onlyDigits_def
          split: option.splits jv.splits)
  from a b show ?thesis by blast
qed

theorem billing_cpf_fallback_witness:
  "fst (handleBillingCpf exampleEnv
          (worldAt True True ''5511999990000'' ''billing_cpf'' (Some exampleData))
          ''oi'' ''5511999990000'')
     = Reply \<lparr>step = ''main_menu'', message = MsgCpfNotFound, optionList = Some getMainMenuOptions\<rparr>"
proof -
  let ?ph = "''5511999990000''"
  let ?w = "worldAt True True ?ph ''billing_cpf'' (Some exampleData)"
  have st: "currentStep (readSession ?w ?ph) = ''billing_cpf''" by (simp add: worldAt_read)
  have m: "length (onlyDigits ''oi'') \<noteq> 11" by (simp add: onlyDigits_def isDigit_def)
  have c: "getProp (dataProp (readSession ?w ?ph) ''clienteData'') ''cpf'' = Some (JStr ''11144477735'')"
    by (simp add: dataProp_def worldAt_read exampleData_def)
  have l: "length (onlyDigits ''11144477735'') = 11" by (simp add: onlyDigits_def isDigit_def)
  have n: "checkCpfExists exampleEnv (onlyDigits ''11144477735'') = None" by (simp add: exampleEnv_def)
  from billing_cpf_fallback[OF st, of "''oi''" "''11144477735''" exampleEnv] m c l n
  show ?thesis by simp
qed

section \<open>Installment plans\<close>

lemma carneCalls_append: "carneCalls (xs @ ys) = carneCalls xs @ carneCalls ys"
  by (induction xs rule: carneCalls.induct) simp_all

lemma setDate_plus_seven:
  "setDate e t (getDate e t + 7) = UTC e (LocalTime e t + 7 * msPerDay)"
proof -
  let ?lt = "LocalTime e t"
  have "MakeDay (YearFromTime ?lt) (MonthFromTime ?lt) (DateFromTime ?lt + 7) = Day ?lt + 7"
    by (simp add: MakeDay_def DateFromTime_def DayWithinYear_def)
  moreover have "MakeDate (Day ?lt + 7) (TimeWithinDay ?lt) = ?lt + 7 * msPerDay"
    by (simp add: MakeDate_def Day_def TimeWithinDay_def algebra_simps)
  ultimately show ?thesis
    by (simp add: setDate_def getDate_def Let_def)
qed

lemma dataVencimento_eq: "dataVencimento e = UTC e (LocalTime e (nowMs e) + 7 * msPerDay)"
  by (simp add: dataVencimento_def setDate_plus_seven)

lemma Day_plus_seven: "Day (t + 7 * msPerDay) = Day t + 7"
  by (simp add: Day_def msPerDay_def)

lemma processPaymentCarne_events:
  "events (snd (processPaymentCarne e w ph n)) = events w
   \<or> events (snd (processPaymentCarne e w ph n))
        = events w @ [GerarCarne (carneRequestOf e (readSession w ph) n)]"
proof -
  obtain s w1 where g: "getOrCreateSession w ph = (s, w1)" by (cases "getOrCreateSession w ph")
  have s: "s = readSession w ph" using g by (simp add: readSession_def)
  have e1: "events w1 = events w" using getOrCreateSession_frame_pair[OF g] by simp
  show ?thesis
    by (simp add: processPaymentCarne_def Let_def g e1 s[symmetric] carneRequestOf_def
          split: carneResult.splits bool.splits)
qed

lemma processPaymentCarne_call:
  assumes cd: "truthy (dataProp (readSession w ph) ''clienteData'')"
    and pd: "truthy (dataProp (readSession w ph) ''pacoteData'')"
    and arr: "isArrayOrFalsy (getProp (dataProp (readSession w ph) ''pacoteData'') ''itensSelecionados'')"
  shows "events (snd (processPaymentCarne e w ph n))
           = events w @ [GerarCarne (carneRequestOf e (readSession w ph) n)]"
    and "\<exists>m. fst (processPaymentCarne e w ph n)
           = Reply \<lparr>step = ''main_menu'', message = m, optionList = Some getMainMenuOptions\<rparr>"
proof -
  obtain s w1 where g: "getOrCreateSession w ph = (s, w1)" by (cases "getOrCreateSession w ph")
  have s: "s = readSession w ph" using g by (simp add: readSession_def)
  have e1: "events w1 = events w" using getOrCreateSession_frame_pair[OF g] by simp
  show "events (snd (processPaymentCarne e w ph n))
           = events w @ [GerarCarne (carneRequestOf e (readSession w ph) n)]"
    using cd pd arr
    by (simp add: processPaymentCarne_def Let_def g e1 s[symmetric] carneRequestOf_def
          split: carneResult.splits bool.splits)
  show "\<exists>m. fst (processPaymentCarne e w ph n)
           = Reply \<lparr>step = ''main_menu'', message = m, optionList = Some getMainMenuOptions\<rparr>"
    by (simp add: processPaymentCarne_def Let_def g paymentError_def
          split: carneResult.splits bool.splits)
qed

lemma handleCarneParcelas_reprompt:
  assumes cd: "truthy (dataProp (readSession w ph) ''clienteData'')"
    and cfg: "truthy (getProp (dataProp (readSession w ph) ''pacoteData'') ''configuracaoTurmaId'')"
    and bad: "parseInt msg = None \<or> (\<exists>n. parseInt msg = Some n \<and> n < 1)"
  shows "fst (handleCarneParcelas e w msg ph)
           = Reply \<lparr>step = ''carne_parcelas'', message = MsgParcelasInvalid,
                    optionList = Some (parcelasOptions
                      (case db_getConfiguracaoTurma e (getProp (dataProp (readSession w ph) ''clienteData'') ''turmaId'') of
                         None \<Rightarrow> 6
                       | Some c \<Rightarrow> if carneMaxParcelas c = 0 then 6 else carneMaxParcelas c))\<rparr>"
    and "events (snd (handleCarneParcelas e w msg ph)) = events w"
proof -
  obtain s w1 where g1: "getOrCreateSession w ph = (s, w1)" by (cases "getOrCreateSession w ph")
  obtain s2 w2 where g2: "getOrCreateSession w1 ph = (s2, w2)" by (cases "getOrCreateSession w1 ph")
  have s: "s = readSession w ph" using g1 by (simp add: readSession_def)
  have "s2 = readSession w1 ph" using g2 by (simp add: readSession_def)
  also have "w1 = snd (getOrCreateSession w ph)" using g1 by simp
  finally have s2: "s2 = readSession w ph" by (simp add: readSession_idem)
  have ev: "events w2 = events w"
    using getOrCreateSession_frame_pair[OF g1] getOrCreateSession_frame_pair[OF g2] by simp
  have nn: "isNaN (parseInt msg) \<or> numLess (parseInt msg) 1"
    using bad by (auto simp: isNaN_def numLess_def)
  show "fst (handleCarneParcelas e w msg ph)
           = Reply \<lparr>step = ''carne_parcelas'', message = MsgParcelasInvalid,
                    optionList = Some (parcelasOptions
                      (case db_getConfiguracaoTurma e (getProp (dataProp (readSession w ph) ''clienteData'') ''turmaId'') of
                         None \<Rightarrow> 6
                       | Some c \<Rightarrow> if carneMaxParcelas c = 0 then 6 else carneMaxParcelas c))\<rparr>"
    using cd cfg nn by (simp add: handleCarneParcelas_def Let_def g1 g2 s s2)
  show "events (snd (handleCarneParcelas e w msg ph)) = events w"
    using cd cfg nn by (simp add: handleCarneParcelas_def Let_def g1 g2 s s2 ev)
qed

lemma handleCarneParcelas_accept:
  assumes cd: "truthy (dataProp (readSession w ph) ''clienteData'')"
    and cfg: "truthy (getProp (dataProp (readSession w ph) ''pacoteData'') ''configuracaoTurmaId'')"
    and p: "parseInt msg = Some n" and n1: "1 \<le> n"
  shows "handleCarneParcelas e w msg ph
           = processPaymentCarne e
               (updatePackageData (snd (getOrCreateSession w ph)) ph ''parcelas'' (JNum (of_int n))) ph n"
proof -
  obtain s w1 where g1: "getOrCreateSession w ph = (s, w1)" by (cases "getOrCreateSession w ph")
  have s: "s = readSession w ph" using g1 by (simp add: readSession_def)
  have nn: "\<not> (isNaN (parseInt msg) \<or> numLess (parseInt msg) 1)"
    using p n1 by (simp add: isNaN_def numLess_def)
  show ?thesis
    using cd cfg nn p by (simp add: handleCarneParcelas_def Let_def g1 s)
qed

lemma handleCarneParcelas_no_data:
  assumes "\<not> truthy (dataProp (readSession w ph) ''clienteData'')
           \<or> \<not> truthy (getProp (dataProp (readSession w ph) ''pacoteData'') ''configuracaoTurmaId'')"
  shows "events (snd (handleCarneParcelas e w msg ph)) = events w"
proof -
  obtain s w1 where g1: "getOrCreateSession w ph = (s, w1)" by (cases "getOrCreateSession w ph")
  have s: "s = readSession w ph" using g1 by (simp add: readSession_def)
  have ev: "events w1 = events w" using getOrCreateSession_frame_pair[OF g1] by simp
  show ?thesis
    using assms by (auto simp: handleCarneParcelas_def Let_def g1 s ev)
qed

lemma carne_after_parcelas:
  fixes w :: world and ph :: string and n :: int
  assumes cd: "truthy (dataProp (readSession w ph) ''clienteData'')"
    and cfg: "truthy (getProp (dataProp (readSession w ph) ''pacoteData'') ''configuracaoTurmaId'')"
  defines "w2 \<equiv> updatePackageData (snd (getOrCreateSession w ph)) ph ''parcelas'' (JNum (of_int n))"
  shows "dataProp (readSession w2 ph) ''clienteData'' = dataProp (readSession w ph) ''clienteData''"
    and "truthy (dataProp (readSession w2 ph) ''pacoteData'')"
    and "getProp (dataProp (readSession w2 ph) ''pacoteData'') ''itensSelecionados''
           = getProp (dataProp (readSession w ph) ''pacoteData'') ''itensSelecionados''"
    and "getProp (dataProp (readSession w2 ph) ''pacoteData'') ''valorTotal''
           = getProp (dataProp (readSession w ph) ''pacoteData'') ''valorTotal''"
    and "\<exists>st. events w2 = events w @ [SessionUpdate st]"
proof -
  let ?w1 = "snd (getOrCreateSession w ph)"
  from truthy_data_cache[OF cd] have up1: "redis ?w1"
    by (simp add: getOrCreateSession_frame)
  from getProp_object[OF cfg] obtain m where
    m0: "dataProp (readSession w ph) ''pacoteData'' = Some (JObj m)" by auto
  then have m: "dataProp (readSession ?w1 ph) ''pacoteData'' = Some (JObj m)"
    by (simp add: readSession_idem)
  note a = updatePackageData_object[where k = "''parcelas''" and v = "JNum (of_int n)", OF up1 m]
  show "dataProp (readSession w2 ph) ''clienteData'' = dataProp (readSession w ph) ''clienteData''"
    by (simp add: w2_def a(2) readSession_idem)
  show "truthy (dataProp (readSession w2 ph) ''pacoteData'')"
    by (simp add: w2_def a(1))
  show "getProp (dataProp (readSession w2 ph) ''pacoteData'') ''itensSelecionados''
           = getProp (dataProp (readSession w ph) ''pacoteData'') ''itensSelecionados''"
    and "getProp (dataProp (readSession w2 ph) ''pacoteData'') ''valorTotal''
           = getProp (dataProp (readSession w ph) ''pacoteData'') ''valorTotal''"
    by (simp_all add: w2_def a(1) m0)
  show "\<exists>st. events w2 = events w @ [SessionUpdate st]"
    using updatePackageData_events[of ?w1 ph "''parcelas''" "JNum (of_int n)"]
    by (simp add: w2_def getOrCreateSession_frame)
qed

text \<open>
  C4. What \<open>handleCarneParcelas\<close> does, with the customer data and the cohort
  configuration in the session: when the input parses to a number \<open>n\<close> of at least 1,
  the payment backend is called for \<open>n\<close> installments, whatever the maximum configured for
  the cohort is (the session needs no more than a list, or nothing, under
  \<open>itensSelecionados\<close>), and the reply goes to \<open>main_menu\<close>. When the input parses to no
  number or to a number below 1, the reply stays at \<open>carne_parcelas\<close> with the options 1
  to the configured maximum (6 when none is configured) and the backend is not called.
\<close>

theorem carne_parcelas_bounds:
  assumes cd: "truthy (dataProp (readSession w ph) ''clienteData'')"
    and cfg: "truthy (getProp (dataProp (readSession w ph) ''pacoteData'') ''configuracaoTurmaId'')"
  shows "(parseInt msg = Some n \<and> 1 \<le> n
          \<and> isArrayOrFalsy (getProp (dataProp (readSession w ph) ''pacoteData'') ''itensSelecionados'') \<longrightarrow>
            carneCalls (newEvents w (snd (handleCarneParcelas e w msg ph)))
              = [carneRequestOf e (readSession w ph) n]
          \<and> parcelas (carneRequestOf e (readSession w ph) n) = n
          \<and> (\<exists>m. fst (handleCarneParcelas e w msg ph)
                 = Reply \<lparr>step = ''main_menu'', message = m, optionList = Some getMainMenuOptions\<rparr>))
     \<and> (parseInt msg = None \<or> (\<exists>k. parseInt msg = Some k \<and> k < 1) \<longrightarrow>
            fst (handleCarneParcelas e w msg ph)
              = Reply \<lparr>step = ''carne_parcelas'', message = MsgParcelasInvalid,
                       optionList = Some (parcelasOptions
                         (case db_getConfiguracaoTurma e
                                 (getProp (dataProp (readSession w ph) ''clienteData'') ''turmaId'') of
                            None \<Rightarrow> 6
                          | Some c \<Rightarrow> if carneMaxParcelas c = 0 then 6 else carneMaxParcelas c))\<rparr>
          \<and> carneCalls (newEvents w (snd (handleCarneParcelas e w msg ph))) = [])"
proof -
  have A: "carneCalls (newEvents w (snd (handleCarneParcelas e w msg ph)))
              = [carneRequestOf e (readSession w ph) n]
          \<and> parcelas (carneRequestOf e (readSession w ph) n) = n
          \<and> (\<exists>m. fst (handleCarneParcelas e w msg ph)
                 = Reply \<lparr>step = ''main_menu'', message = m, optionList = Some getMainMenuOptions\<rparr>)"
    if p: "parseInt msg = Some n" and n1: "1 \<le> n"
      and arr: "isArrayOrFalsy (getProp (dataProp (readSession w ph) ''pacoteData'') ''itensSelecionados'')"
  proof -
    let ?w2 = "updatePackageData (snd (getOrCreateSession w ph)) ph ''parcelas'' (JNum (of_int n))"
    note h = handleCarneParcelas_accept[OF cd cfg p n1, of e]
    note k = carne_after_parcelas[OF cd cfg, of n]
    have cd2: "truthy (dataProp (readSession ?w2 ph) ''clienteData'')" using cd by (simp add: k(1))
    have arr2: "isArrayOrFalsy (getProp (dataProp (readSession ?w2 ph) ''pacoteData'') ''itensSelecionados'')"
      using arr by (simp add: k(3))
    note c = processPaymentCarne_call[OF cd2 k(2) arr2, of e n]
    have rq: "carneRequestOf e (readSession ?w2 ph) n = carneRequestOf e (readSession w ph) n"
      by (simp add: carneRequestOf_def k(1) k(4))
    from k(5) obtain st where ev2: "events ?w2 = events w @ [SessionUpdate st]" by blast
    have "events (snd (handleCarneParcelas e w msg ph))
        = events w @ [SessionUpdate st, GerarCarne (carneRequestOf e (readSession w ph) n)]"
      by (simp add: h c(1) rq ev2)
    then have "carneCalls (newEvents w (snd (handleCarneParcelas e w msg ph)))
        = [carneRequestOf e (readSession w ph) n]"
      by (simp add: newEvents_def)
    moreover have "parcelas (carneRequestOf e (readSession w ph) n) = n"
      by (simp add: carneRequestOf_def)
    moreover have "\<exists>m. fst (handleCarneParcelas e w msg ph)
                 = Reply \<lparr>step = ''main_menu'', message = m, optionList = Some getMainMenuOptions\<rparr>"
      using c(2) by (simp add: h)
    ultimately show ?thesis by blast
  qed
  have B: "fst (handleCarneParcelas e w msg ph)
              = Reply \<lparr>step = ''carne_parcelas'', message = MsgParcelasInvalid,
                       optionList = Some (parcelasOptions
                         (case db_getConfiguracaoTurma e
                                 (getProp (dataProp (readSession w ph) ''clienteData'') ''turmaId'') of
                            None \<Rightarrow> 6
                          | Some c \<Rightarrow> if carneMaxParcelas c = 0 then 6 else carneMaxParcelas c))\<rparr>
          \<and> carneCalls (newEvents w (snd (handleCarneParcelas e w msg ph))) = []"
    if bad: "parseInt msg = None \<or> (\<exists>k. parseInt msg = Some k \<and> k < 1)"
    using handleCarneParcelas_reprompt[OF cd cfg bad, of e]
    by (simp add: newEvents_def)
  from A B show ?thesis by blast
qed

theorem carne_parcelas_bounds_witness:
  "carneCalls (newEvents (worldAt True True ''5511999990000'' ''carne_parcelas'' (Some exampleData))
      (snd (handleCarneParcelas exampleEnv
              (worldAt True True ''5511999990000'' ''carne_parcelas'' (Some exampleData))
              ''99'' ''5511999990000'')))
     = [\<lparr>alunoId = Some (JNum 7), req_valor = JNum 0, parcelas = 99,
         vencimentoPrimeiraParcela = calcularVencimentoPadrao exampleEnv\<rparr>]
   \<and> carneMaxParcelas (case db_getConfiguracaoTurma exampleEnv (Some (JStr ''T1'')) of
                         Some c \<Rightarrow> c | None \<Rightarrow> \<lparr>config_id = [], carneMaxParcelas = 0\<rparr>) = 6"
proof -
  let ?ph = "''5511999990000''"
  let ?w = "worldAt True True ?ph ''carne_parcelas'' (Some exampleData)"
  note cd = exampleData_props(1)[of ?ph "''carne_parcelas''"]
  note cfg = exampleData_props(2)[of ?ph "''carne_parcelas''"]
  have p: "parseInt ''99'' = Some 99"
    by (simp add: parseInt_def isSpaceChar_def isDigit_def digitVal_def)
  have arr: "isArrayOrFalsy (getProp (dataProp (readSession ?w ?ph) ''pacoteData'') ''itensSelecionados'')"
    by (simp add: isArrayOrFalsy_def dataProp_def worldAt_read exampleData_def)
  have rq: "carneRequestOf exampleEnv (readSession ?w ?ph) 99
      = \<lparr>alunoId = Some (JNum 7), req_valor = JNum 0, parcelas = 99,
         vencimentoPrimeiraParcela = calcularVencimentoPadrao exampleEnv\<rparr>"
    by (simp add: carneRequestOf_def dataProp_def worldAt_read exampleData_def)
  have mx: "carneMaxParcelas (case db_getConfiguracaoTurma exampleEnv (Some (JStr ''T1'')) of
                         Some c \<Rightarrow> c | None \<Rightarrow> \<lparr>config_id = [], carneMaxParcelas = 0\<rparr>) = 6"
    by (simp add: exampleEnv_def)
  from carne_parcelas_bounds[OF cd cfg, of "''99''" 99 exampleEnv] p arr rq mx
  show ?thesis by simp
qed

text \<open>
  C10. The due date that \<open>processPaymentCarne\<close> sends. \<open>calcularVencimentoPadrao\<close> advances
  the clock by seven days on the calendar of the host (\<open>getDate\<close> and \<open>setDate\<close> work in
  local time) and prints the date of the result in universal time (\<open>toISOString\<close>). The
  time value printed is the local time of the clock plus seven days, taken back to
  universal time; its local day is the local day of the clock plus seven. When the
  offset of the host is a constant \<open>c\<close>, the time value is the clock plus seven days, so
  the date sent is seven days after the date of the clock in universal time, and it is
  seven days after the date on the host exactly when the two dates of the clock agree.
  Every request for an installment plan recorded by \<open>processPaymentCarne\<close> and by
  \<open>handleCarneParcelas\<close>, for any session and any inbound text, carries that date; and
  \<open>processPaymentCarne\<close> does send a request, with that date, for a session that holds
  the customer data and the package data.
\<close>

theorem carne_due_date:
  "calcularVencimentoPadrao e = isoDate (dataVencimento e)
   \<and> dataVencimento e = UTC e (LocalTime e (nowMs e) + 7 * msPerDay)
   \<and> Day (LocalTime e (nowMs e) + 7 * msPerDay) = Day (LocalTime e (nowMs e)) + 7
   \<and> ((\<forall>t isUTC. localTZA e t isUTC = c) \<longrightarrow>
         dataVencimento e = nowMs e + 7 * msPerDay
       \<and> Day (dataVencimento e) = Day (nowMs e) + 7
       \<and> (Day (dataVencimento e) = Day (LocalTime e (nowMs e)) + 7
            \<longleftrightarrow> Day (LocalTime e (nowMs e)) = Day (nowMs e)))
   \<and> list_all (\<lambda>r. vencimentoPrimeiraParcela r = calcularVencimentoPadrao e)
        (carneCalls (newEvents w (snd (processPaymentCarne e w ph n))))
   \<and> list_all (\<lambda>r. vencimentoPrimeiraParcela r = calcularVencimentoPadrao e)
        (carneCalls (newEvents w (snd (handleCarneParcelas e w msg ph))))
   \<and> (truthy (dataProp (readSession w ph) ''clienteData'')
        \<and> truthy (dataProp (readSession w ph) ''pacoteData'')
        \<and> isArrayOrFalsy (getProp (dataProp (readSession w ph) ''pacoteData'') ''itensSelecionados'')
      \<longrightarrow> carneCalls (newEvents w (snd (processPaymentCarne e w ph n)))
            = [carneRequestOf e (readSession w ph) n]
          \<and> vencimentoPrimeiraParcela (carneRequestOf e (readSession w ph) n)
              = calcularVencimentoPadrao e)"
proof -
  have pp: "list_all (\<lambda>r. vencimentoPrimeiraParcela r = calcularVencimentoPadrao e)
        (carneCalls (newEvents w0 (snd (processPaymentCarne e w1 ph k))))"
    if "events w1 = events w0 @ es" and "carneCalls es = []" for w0 w1 es k
    using processPaymentCarne_events[of e w1 ph k] that
    by (auto simp: newEvents_def carneCalls_append carneRequestOf_def)
  have a: "list_all (\<lambda>r. vencimentoPrimeiraParcela r = calcularVencimentoPadrao e)
        (carneCalls (newEvents w (snd (processPaymentCarne e w ph n))))"
    using pp[of w w "[]" n] by simp
  have b: "list_all (\<lambda>r. vencimentoPrimeiraParcela r = calcularVencimentoPadrao e)
        (carneCalls (newEvents w (snd (handleCarneParcelas e w msg ph))))"
  proof (cases "truthy (dataProp (readSession w ph) ''clienteData'')
           \<and> truthy (getProp (dataProp (readSession w ph) ''pacoteData'') ''configuracaoTurmaId'')")
    case False
    then have "events (snd (handleCarneParcelas e w msg ph)) = events w"
      by (intro handleCarneParcelas_no_data) simp
    then show ?thesis by (simp add: newEvents_def)
  next
    case True
    then have cd: "truthy (dataProp (readSession w ph) ''clienteData'')"
      and cfg: "truthy (getProp (dataProp (readSession w ph) ''pacoteData'') ''configuracaoTurmaId'')"
      by simp_all
    show ?thesis
    proof (cases "parseInt msg = None \<or> (\<exists>k. parseInt msg = Some k \<and> k < 1)")
      case bad: True
      from handleCarneParcelas_reprompt(2)[OF cd cfg bad, of e]
      show ?thesis by (simp add: newEvents_def)
    next
      case False
      then obtain k where p: "parseInt msg = Some k" and k1: "1 \<le> k"
        by (cases "parseInt msg") auto
      note h = handleCarneParcelas_accept[OF cd cfg p k1, of e]
      from carne_after_parcelas(5)[OF cd cfg, of k] obtain st where
        ev: "events (updatePackageData (snd (getOrCreateSession w ph)) ph ''parcelas'' (JNum (of_int k)))
               = events w @ [SessionUpdate st]" by blast
      show ?thesis
        unfolding h by (rule pp[OF ev]) simp
    qed
  qed
  have c: "dataVencimento e = nowMs e + 7 * msPerDay
       \<and> Day (dataVencimento e) = Day (nowMs e) + 7
       \<and> (Day (dataVencimento e) = Day (LocalTime e (nowMs e)) + 7
            \<longleftrightarrow> Day (LocalTime e (nowMs e)) = Day (nowMs e))"
    if "\<forall>t isUTC. localTZA e t isUTC = c"
  proof -
    have "dataVencimento e = nowMs e + 7 * msPerDay"
      using that by (simp add: dataVencimento_eq UTC_def LocalTime_def)
    then show ?thesis by (auto simp: Day_plus_seven)
  qed
  have p1: "calcularVencimentoPadrao e = isoDate (dataVencimento e)"
    by (simp add: calcularVencimentoPadrao_def)
  have p3: "Day (LocalTime e (nowMs e) + 7 * msPerDay) = Day (LocalTime e (nowMs e)) + 7"
    by (rule Day_plus_seven)
  have f: "carneCalls (newEvents w (snd (processPaymentCarne e w ph n)))
            = [carneRequestOf e (readSession w ph) n]
          \<and> vencimentoPrimeiraParcela (carneRequestOf e (readSession w ph) n)
              = calcularVencimentoPadrao e"
    if "truthy (dataProp (readSession w ph) ''clienteData'')
        \<and> truthy (dataProp (readSession w ph) ''pacoteData'')
        \<and> isArrayOrFalsy (getProp (dataProp (readSession w ph) ''pacoteData'') ''itensSelecionados'')"
  proof -
    from that have cd: "truthy (dataProp (readSession w ph) ''clienteData'')"
      and pd: "truthy (dataProp (readSession w ph) ''pacoteData'')"
      and arr: "isArrayOrFalsy (getProp (dataProp (readSession w ph) ''pacoteData'') ''itensSelecionados'')"
      by simp_all
    from processPaymentCarne_call(1)[OF cd pd arr, of e n]
    show ?thesis by (simp add: newEvents_def carneRequestOf_def)
  qed
  from p1 dataVencimento_eq[of e] p3 a b c f show ?thesis by blast
qed

theorem carne_due_date_witness:
  "calcularVencimentoPadrao eveningEnv = ''2024-03-04''
   \<and> isoDate (LocalTime eveningEnv (nowMs eveningEnv)) = ''2024-02-25''
   \<and> Day (dataVencimento eveningEnv) = Day (LocalTime eveningEnv (nowMs eveningEnv)) + 8
   \<and> calcularVencimentoPadrao autumnEnv = ''2024-11-07''
   \<and> isoDate (LocalTime autumnEnv (nowMs autumnEnv)) = ''2024-10-30''
   \<and> isoDate (nowMs autumnEnv) = ''2024-10-30''
   \<and> carneCalls (newEvents (worldAt True True ''5511999990000'' ''carne_parcelas'' (Some exampleData))
        (snd (processPaymentCarne eveningEnv
                (worldAt True True ''5511999990000'' ''carne_parcelas'' (Some exampleData))
                ''5511999990000'' 3)))
      = [\<lparr>alunoId = Some (JNum 7), req_valor = JNum 0, parcelas = 3,
          vencimentoPrimeiraParcela = ''2024-03-04''\<rparr>]"
proof -
  let ?ph = "''5511999990000''"
  let ?w = "worldAt True True ?ph ''carne_parcelas'' (Some exampleData)"
  have ex: "truthy (dataProp (readSession ?w ?ph) ''clienteData'')"
    "truthy (dataProp (readSession ?w ?ph) ''pacoteData'')"
    "isArrayOrFalsy (getProp (dataProp (readSession ?w ?ph) ''pacoteData'') ''itensSelecionados'')"
    by (simp_all add: isArrayOrFalsy_def dataProp_def worldAt_read exampleData_def)
  have rq: "carneRequestOf eveningEnv (readSession ?w ?ph) 3
      = \<lparr>alunoId = Some (JNum 7), req_valor = JNum 0, parcelas = 3,
         vencimentoPrimeiraParcela = calcularVencimentoPadrao eveningEnv\<rparr>"
    by (simp add: carneRequestOf_def dataProp_def worldAt_read exampleData_def)
  have n: "nowMs eveningEnv = 1708909200000"
    and z: "\<forall>t isUTC. localTZA eveningEnv t isUTC = - 10800000"
    by (simp_all add: eveningEnv_def exampleEnv_def)
  have l: "LocalTime eveningEnv 1708909200000 = 1708898400000"
    by (simp add: LocalTime_def eveningEnv_def exampleEnv_def)
  have d: "Day 1708898400000 = 19778" "Day (1708909200000 + 7 * msPerDay) = 19786"
    by (simp_all add: Day_def msPerDay_def)
  have i1: "isoDate (1708909200000 + 7 * msPerDay) = ''2024-03-04''" by code_simp
  have i2: "isoDate 1708898400000 = ''2024-02-25''" by code_simp
  from carne_due_date[of eveningEnv "- 10800000" ?w ?ph 3] z ex
  have c1: "calcularVencimentoPadrao eveningEnv = isoDate (dataVencimento eveningEnv)"
    and c2: "dataVencimento eveningEnv = nowMs eveningEnv + 7 * msPerDay"
    and c5: "carneCalls (newEvents ?w (snd (processPaymentCarne eveningEnv ?w ?ph 3)))
               = [carneRequestOf eveningEnv (readSession ?w ?ph) 3]"
    by blast+
  have a: "calcularVencimentoPadrao eveningEnv = ''2024-03-04''
     \<and> Day (dataVencimento eveningEnv) = Day (LocalTime eveningEnv (nowMs eveningEnv)) + 8"
    by (simp add: c1 c2 n l d i1)
  have na: "nowMs autumnEnv = 1730331000000"
    and la: "LocalTime autumnEnv 1730331000000 = 1730316600000"
    and ua: "UTC autumnEnv (1730316600000 + 7 * msPerDay) = 1730939400000"
    by (simp_all add: autumnEnv_def exampleEnv_def LocalTime_def UTC_def msPerDay_def)
  have i3: "isoDate 1730939400000 = ''2024-11-07''" by code_simp
  have i4: "isoDate 1730316600000 = ''2024-10-30''" by code_simp
  have i5: "isoDate 1730331000000 = ''2024-10-30''" by code_simp
  from carne_due_date[of autumnEnv 0]
  have c3: "calcularVencimentoPadrao autumnEnv = isoDate (dataVencimento autumnEnv)"
    and c4: "dataVencimento autumnEnv = UTC autumnEnv (LocalTime autumnEnv (nowMs autumnEnv) + 7 * msPerDay)"
    by blast+
  have b: "calcularVencimentoPadrao autumnEnv = ''2024-11-07''"
    by (simp add: c3 c4 na la ua i3)
  from a b show ?thesis by (simp add: n l i2 na la i4 i5 c5 rq)
qed
section \<open>The webhook guard\<close>

lemma setIfNotExists_down: "\<not> redis w \<Longrightarrow> setIfNotExists w k = (False, w)"
  by (simp add: setIfNotExists_def)

lemma setIfNotExists_fresh:
  "redis w \<Longrightarrow> k \<notin> redisKeys w \<Longrightarrow> setIfNotExists w k = (True, w\<lparr>redisKeys := insert k (redisKeys w)\<rparr>)"
  by (simp add: setIfNotExists_def)

text \<open>
  C2. What \<open>handleWebhook\<close> does with an event that passes the payload validation and
  is not flagged as sent by the account itself. When the cache store is unavailable,
  \<open>setIfNotExists\<close> answers false, which the guard reads as "already seen": the event is
  answered as a duplicate (when it carries a message id) or as debounced (when it does
  not), the state is unchanged and the engine is not invoked. When the store is
  available, the event carries no message id and its debounce and lock keys are not
  set, a user message is processed by the engine.
\<close>

theorem webhook_store_outage:
  assumes v: "pl_phone p \<noteq> []" "pl_type p \<noteq> []" and nf: "\<not> fromMe p"
  shows "(\<not> redis w \<longrightarrow>
            handleWebhook e w p = (if truthyStr (messageId p) then Deduped else Debounced, w))
     \<and> (redis w \<and> \<not> truthyStr (messageId p) \<and> isUserMessage p
          \<and> ''zapi:debounce:'' @ pl_phone p @ ''|'' @ pl_type p @ ''|'' @ debounceContent p \<notin> redisKeys w
          \<and> ''zapi:lock:'' @ pl_phone p \<notin> redisKeys w \<longrightarrow>
            handleWebhook e w p
              = (Success,
                 redis_delete
                   (processIncomingMessage e
                      (w\<lparr>redisKeys :=
                           insert (''zapi:lock:'' @ pl_phone p)
                             (insert (''zapi:debounce:'' @ pl_phone p @ ''|'' @ pl_type p @ ''|'' @ debounceContent p)
                                (redisKeys w))\<rparr>) p)
                   (''zapi:lock:'' @ pl_phone p)))"
proof -
  have a: "handleWebhook e w p = (if truthyStr (messageId p) then Deduped else Debounced, w)"
    if "\<not> redis w"
    using v nf that by (simp add: handleWebhook_def Let_def setIfNotExists_down)
  have b: "handleWebhook e w p
              = (Success,
                 redis_delete
                   (processIncomingMessage e
                      (w\<lparr>redisKeys :=
                           insert (''zapi:lock:'' @ pl_phone p)
                             (insert (''zapi:debounce:'' @ pl_phone p @ ''|'' @ pl_type p @ ''|'' @ debounceContent p)
                                (redisKeys w))\<rparr>) p)
                   (''zapi:lock:'' @ pl_phone p))"
    if r: "redis w" and m: "\<not> truthyStr (messageId p)" and u: "isUserMessage p"
      and dk: "''zapi:debounce:'' @ pl_phone p @ ''|'' @ pl_type p @ ''|'' @ debounceContent p \<notin> redisKeys w"
      and lk: "''zapi:lock:'' @ pl_phone p \<notin> redisKeys w"
  proof -
    let ?dk = "''zapi:debounce:'' @ pl_phone p @ ''|'' @ pl_type p @ ''|'' @ debounceContent p"
    let ?lk = "''zapi:lock:'' @ pl_phone p"
    let ?w2 = "w\<lparr>redisKeys := insert ?dk (redisKeys w)\<rparr>"
    have s1: "setIfNotExists w ?dk = (True, ?w2)" by (rule setIfNotExists_fresh[OF r dk])
    have ne: "?lk \<noteq> ?dk" by simp
    have "?lk \<notin> redisKeys ?w2" using lk ne by simp
    moreover have "redis ?w2" using r by simp
    ultimately have s2: "setIfNotExists ?w2 ?lk = (True, ?w2\<lparr>redisKeys := insert ?lk (redisKeys ?w2)\<rparr>)"
      by (rule setIfNotExists_fresh[rotated])
    have "handleWebhook e w p
        = (Success, redis_delete (processIncomingMessage e (?w2\<lparr>redisKeys := insert ?lk (redisKeys ?w2)\<rparr>) p) ?lk)"
      using v nf m u
      by (simp only: handleWebhook_def Let_def s1 s2 append_assoc split if_False if_True not_True_eq_False simp_thms)
    then show ?thesis by simp
  qed
  from a b show ?thesis by blast
qed

theorem webhook_store_outage_witness:
  "handleWebhook exampleEnv (emptyWorld True False) (textPayload ''5511999990000'' ''1'')
     = (Debounced, emptyWorld True False)
   \<and> events (snd (handleWebhook exampleEnv (emptyWorld True False) (textPayload ''5511999990000'' ''1''))) = []"
proof -
  let ?p = "textPayload ''5511999990000'' ''1''"
  have v: "pl_phone ?p \<noteq> []" "pl_type ?p \<noteq> []" and nf: "\<not> fromMe ?p"
    and m: "\<not> truthyStr (messageId ?p)"
    by (simp_all add: textPayload_def truthyStr_def)
  have r: "\<not> redis (emptyWorld True False)" by simp
  from webhook_store_outage[OF v nf, of "emptyWorld True False" exampleEnv] r m
  show ?thesis by simp
qed


end
